theory Spec2Isabelle
  imports Main "HOL-Library.Word"
begin

chapter \<open>The parser\<close>

section \<open>JavaScript strings\<close>

text \<open>
  A JavaScript string is a sequence of UTF-16 code units; \<open>length\<close>, indexing and
  \<open>slice\<close> count code units.  A code unit is a 16-bit word, a string a list of them.
  \<open>js\<close> turns an ASCII literal into such a string.
\<close>

type_synonym cu = "16 word"
type_synonym jsstring = "cu list"

definition js :: "string \<Rightarrow> jsstring" where
  "js s = map of_char s"

abbreviation TAB :: cu where "TAB \<equiv> 0x09"
abbreviation LF :: cu where "LF \<equiv> 0x0A"
abbreviation SP :: cu where "SP \<equiv> 0x20"
abbreviation CR :: cu where "CR \<equiv> 0x0D"
abbreviation DQUOTE :: cu where "DQUOTE \<equiv> 0x22"
abbreviation HASH :: cu where "HASH \<equiv> 0x23"
abbreviation AMP :: cu where "AMP \<equiv> 0x26"
abbreviation SQUOTE :: cu where "SQUOTE \<equiv> 0x27"
abbreviation LPAREN :: cu where "LPAREN \<equiv> 0x28"
abbreviation RPAREN :: cu where "RPAREN \<equiv> 0x29"
abbreviation COLON :: cu where "COLON \<equiv> 0x3A"
abbreviation SEMI :: cu where "SEMI \<equiv> 0x3B"
abbreviation LT :: cu where "LT \<equiv> 0x3C"
abbreviation GT :: cu where "GT \<equiv> 0x3E"
abbreviation LBRACKET :: cu where "LBRACKET \<equiv> 0x5B"
abbreviation BACKSLASH :: cu where "BACKSLASH \<equiv> 0x5C"
abbreviation RBRACKET :: cu where "RBRACKET \<equiv> 0x5D"
abbreviation REPLACEMENT :: cu where "REPLACEMENT \<equiv> 0xFFFD"

text \<open>
  The regular-expression class \<open>\s\<close> and \<open>String.prototype.trim\<close> use the same set:
  ECMAScript's WhiteSpace and LineTerminator code points.  The class \<open>.\<close> (without the
  \<open>s\<close> flag) is every code unit but the four line terminators.
\<close>

definition isJsWhitespace :: "cu \<Rightarrow> bool" where
  "isJsWhitespace c =
     (c = 0x09 \<or> c = 0x0A \<or> c = 0x0B \<or> c = 0x0C \<or> c = 0x0D \<or> c = 0x20 \<or> c = 0xA0
      \<or> c = 0x1680 \<or> (0x2000 \<le> c \<and> c \<le> 0x200A) \<or> c = 0x2028 \<or> c = 0x2029
      \<or> c = 0x202F \<or> c = 0x205F \<or> c = 0x3000 \<or> c = 0xFEFF)"

definition isLineTerminator :: "cu \<Rightarrow> bool" where
  "isLineTerminator c = (c = 0x0A \<or> c = 0x0D \<or> c = 0x2028 \<or> c = 0x2029)"

definition trim :: "jsstring \<Rightarrow> jsstring" where
  "trim s = rev (dropWhile isJsWhitespace (rev (dropWhile isJsWhitespace s)))"

definition isDigit :: "cu \<Rightarrow> bool" where
  "isDigit c = (0x30 \<le> c \<and> c \<le> 0x39)"

definition isHexDigit :: "cu \<Rightarrow> bool" where
  "isHexDigit c = ((0x30 \<le> c \<and> c \<le> 0x39) \<or> (0x61 \<le> c \<and> c \<le> 0x66) \<or> (0x41 \<le> c \<and> c \<le> 0x46))"

definition isAlpha :: "cu \<Rightarrow> bool" where
  "isAlpha c = ((0x61 \<le> c \<and> c \<le> 0x7A) \<or> (0x41 \<le> c \<and> c \<le> 0x5A))"

definition isAlnum :: "cu \<Rightarrow> bool" where
  "isAlnum c = (isAlpha c \<or> isDigit c)"

text \<open>\<open>ASCII_PUNCTUATION_REGEX\<close>: the 32 ASCII punctuation characters.\<close>

definition isAsciiPunctuation :: "cu \<Rightarrow> bool" where
  "isAsciiPunctuation c =
     ((0x21 \<le> c \<and> c \<le> 0x2F) \<or> (0x3A \<le> c \<and> c \<le> 0x40) \<or>
      (0x5B \<le> c \<and> c \<le> 0x60) \<or> (0x7B \<le> c \<and> c \<le> 0x7E))"

text \<open>\<open>s.startsWith(p)\<close>.\<close>

definition startsWith :: "jsstring \<Rightarrow> jsstring \<Rightarrow> bool" where
  "startsWith s p = (take (length p) s = p)"

section \<open>Indentation (utils.ts)\<close>

text \<open>
  \<open>getIndent\<close> (block parser) and \<open>countLeadingSpaces\<close> (utils) are the same loop: the
  column reached after the leading spaces and tabs, a tab going to the next multiple of 4.
\<close>

fun getIndent_loop :: "jsstring \<Rightarrow> nat \<Rightarrow> nat" where
  "getIndent_loop [] indent = indent"
| "getIndent_loop (c # cs) indent =
     (if c = SP then getIndent_loop cs (indent + 1)
      else if c = TAB then getIndent_loop cs (indent + (4 - indent mod 4))
      else indent)"

definition getIndent :: "jsstring \<Rightarrow> nat" where
  "getIndent raw = getIndent_loop raw 0"

text \<open>
  \<open>expandRestOfLine(line, startIdx, startColumn)\<close>: every tab from \<open>startIdx\<close> on becomes
  the spaces up to its tab stop, the column counted from \<open>startColumn\<close>.
\<close>

fun expandRest_loop :: "jsstring \<Rightarrow> nat \<Rightarrow> jsstring" where
  "expandRest_loop [] column = []"
| "expandRest_loop (c # cs) column =
     (if c = TAB
      then replicate (4 - column mod 4) SP @ expandRest_loop cs (column + (4 - column mod 4))
      else c # expandRest_loop cs (column + 1))"

definition expandRestOfLine :: "jsstring \<Rightarrow> nat \<Rightarrow> nat \<Rightarrow> jsstring" where
  "expandRestOfLine line startIdx startColumn = expandRest_loop (drop startIdx line) startColumn"

text \<open>
  \<open>removeIndent(line, indent)\<close>.  The loop variable \<open>i\<close> of the source is the position of
  the first argument in the line: the loop runs on the rest of the line from \<open>i\<close> on.
\<close>

fun removeIndent_loop :: "jsstring \<Rightarrow> nat \<Rightarrow> nat \<Rightarrow> jsstring" where
  "removeIndent_loop [] removed indent = []"
| "removeIndent_loop (c # cs) removed indent =
     (if removed < indent then
        if c = SP then removeIndent_loop cs (removed + 1) indent
        else if c = TAB then
          (let tabWidth = 4 - removed mod 4 in
           if removed + tabWidth \<le> indent then removeIndent_loop cs (removed + tabWidth) indent
           else
             (let remaining = indent - removed;
                  spacesFromTab = tabWidth - remaining;
                  originalColumn = removed + tabWidth
              in replicate spacesFromTab SP @ expandRestOfLine cs 0 originalColumn))
        else c # cs
      else c # cs)"

definition removeIndent :: "jsstring \<Rightarrow> nat \<Rightarrow> jsstring" where
  "removeIndent line indent = removeIndent_loop line 0 indent"

definition isIndentChar :: "cu \<Rightarrow> bool" where
  "isIndentChar c = (c = SP \<or> c = TAB)"

section \<open>Escapes and entities (utils.ts)\<close>

text \<open>
  \<open>unescapeString\<close>: the global replacement of a backslash followed by an ASCII
  punctuation character by that character.  Matches do not overlap: after a replacement
  the scan goes on behind the punctuation character.
\<close>

fun unescapeString :: "jsstring \<Rightarrow> jsstring" where
  "unescapeString [] = []"
| "unescapeString [c] = [c]"
| "unescapeString (c # d # cs) =
     (if c = BACKSLASH \<and> isAsciiPunctuation d then d # unescapeString cs
      else c # unescapeString (d # cs))"

text \<open>
  \<open>parseInt\<close> on the digit strings the entity patterns capture (no sign, no blank, no
  \<open>0x\<close> prefix): the value of the leading digits of the radix, \<open>NaN\<close> (\<open>None\<close>) when
  there is none.  The value is an unbounded natural number: the source only compares it
  with \<open>0x10ffff\<close>, which no rounding of a larger number changes.
\<close>

definition hexDigitValue :: "cu \<Rightarrow> nat" where
  "hexDigitValue c =
     (if 0x30 \<le> c \<and> c \<le> 0x39 then unat c - 0x30
      else if 0x61 \<le> c \<and> c \<le> 0x66 then unat c - 0x61 + 10
      else unat c - 0x41 + 10)"

definition digitsValue :: "nat \<Rightarrow> jsstring \<Rightarrow> nat" where
  "digitsValue radix ds = foldl (\<lambda>acc c. radix * acc + hexDigitValue c) 0 ds"

definition parseIntHex :: "jsstring \<Rightarrow> nat option" where
  "parseIntHex s =
     (let ds = takeWhile isHexDigit s in if ds = [] then None else Some (digitsValue 16 ds))"

definition parseIntDec :: "jsstring \<Rightarrow> nat option" where
  "parseIntDec s =
     (let ds = takeWhile isDigit s in if ds = [] then None else Some (digitsValue 10 ds))"

text \<open>
  \<open>String.fromCodePoint\<close> for a code point up to \<open>0x10ffff\<close>: one code unit, or a
  surrogate pair.
\<close>

definition fromCodePoint :: "nat \<Rightarrow> jsstring" where
  "fromCodePoint code =
     (if code < 0x10000 then [of_nat code]
      else [of_nat (0xD800 + (code - 0x10000) div 0x400),
            of_nat (0xDC00 + (code - 0x10000) mod 0x400)])"

text \<open>
  The pattern of \<open>decodeHtmlEntities\<close>,
  \<^verbatim>\<open>&(#[xX]?[0-9a-fA-F]+|[a-zA-Z][a-zA-Z0-9]*);\<close>, tried right behind an ampersand:
  \<open>entityCapture\<close> returns the captured group.  The greedy runs never need backtracking:
  a shorter run would have to be followed by \<open>;\<close> where a character of the run stands.
\<close>

definition entityCapture :: "jsstring \<Rightarrow> jsstring option" where
  "entityCapture cs =
     (case cs of
        [] \<Rightarrow> None
      | c # rest \<Rightarrow>
          if c = HASH then
            (let x = (case rest of
                        [] \<Rightarrow> []
                      | d # r \<Rightarrow> if d = of_char CHR ''x'' \<or> d = of_char CHR ''X'' then [d] else []);
                 rest' = drop (length x) rest;
                 hex = takeWhile isHexDigit rest'
             in if hex \<noteq> [] \<and> startsWith (dropWhile isHexDigit rest') [SEMI]
                then Some (HASH # x @ hex) else None)
          else if isAlpha c then
            (let name = c # takeWhile isAlnum rest
             in if startsWith (dropWhile isAlnum rest) [SEMI] then Some name else None)
          else None)"

text \<open>
  The replacement callback of \<open>decodeHtmlEntities\<close>.  The table \<open>HTML_ENTITIES\<close>
  (entities.ts) is a parameter: a partial map from entity names to their strings; the
  source takes an entry only when it is truthy, that is, a non-empty string.
\<close>

type_synonym entities = "jsstring \<Rightarrow> jsstring option"

definition entityReplacement :: "entities \<Rightarrow> jsstring \<Rightarrow> jsstring" where
  "entityReplacement HTML_ENTITIES capture =
     (let match = AMP # capture @ [SEMI];
          numeric = (\<lambda>parsed.
            case parsed of
              None \<Rightarrow> match
            | Some code \<Rightarrow>
                if code \<le> 0x10ffff then (if code = 0 then [REPLACEMENT] else fromCodePoint code)
                else match)
      in if startsWith capture (js ''#x'') \<or> startsWith capture (js ''#X'')
         then numeric (parseIntHex (drop 2 capture))
         else if startsWith capture (js ''#'') then numeric (parseIntDec (drop 1 capture))
         else (case HTML_ENTITIES capture of
                 Some v \<Rightarrow> if v \<noteq> [] then v else match
               | None \<Rightarrow> match))"

fun decodeHtmlEntities :: "entities \<Rightarrow> jsstring \<Rightarrow> jsstring" where
  "decodeHtmlEntities HTML_ENTITIES [] = []"
| "decodeHtmlEntities HTML_ENTITIES (c # cs) =
     (if c = AMP then
        (case entityCapture cs of
           Some capture \<Rightarrow>
             entityReplacement HTML_ENTITIES capture
             @ decodeHtmlEntities HTML_ENTITIES (drop (length capture + 1) cs)
         | None \<Rightarrow> c # decodeHtmlEntities HTML_ENTITIES cs)
      else c # decodeHtmlEntities HTML_ENTITIES cs)"

section \<open>Entities in inline content (inlines/entity.ts)\<close>



section \<open>Labels (utils.ts)\<close>

text \<open>
  \<open>normalizeLabel\<close>: trim, collapse each run of space, tab, CR and LF to one space, replace
  U+1E9E by \<open>ss\<close>, lower the case.  \<open>String.prototype.toLowerCase\<close> belongs to the
  JavaScript runtime and is a parameter; \<open>asciiLowerCase\<close> is what it does on ASCII text.
\<close>

type_synonym lowercase = "jsstring \<Rightarrow> jsstring"

definition asciiLowerCase :: lowercase where
  "asciiLowerCase s = map (\<lambda>c. if 0x41 \<le> c \<and> c \<le> 0x5A then c + 0x20 else c) s"

definition isLabelSpace :: "cu \<Rightarrow> bool" where
  "isLabelSpace c = (c = SP \<or> c = TAB \<or> c = CR \<or> c = LF)"

function collapseSpaces :: "jsstring \<Rightarrow> jsstring" where
  "collapseSpaces [] = []"
| "collapseSpaces (c # cs) =
     (if isLabelSpace c then SP # collapseSpaces (dropWhile isLabelSpace cs)
      else c # collapseSpaces cs)"
  by pat_completeness auto
termination
  by (relation "measure length") (auto simp: length_dropWhile_le less_Suc_eq_le)

definition replaceSharpS :: "jsstring \<Rightarrow> jsstring" where
  "replaceSharpS s = concat (map (\<lambda>c. if c = 0x1E9E then js ''ss'' else [c]) s)"

definition normalizeLabel :: "lowercase \<Rightarrow> jsstring \<Rightarrow> jsstring" where
  "normalizeLabel toLowerCase label = toLowerCase (replaceSharpS (collapseSpaces (trim label)))"

section \<open>Link reference definitions (blocks/link-reference.ts)\<close>

record LinkReferenceDefinition =
  destination :: jsstring
  title :: jsstring

record LinkRefResult =
  label :: jsstring
  defn :: LinkReferenceDefinition
  consumed :: nat

text \<open>
  \<open>LINK_LABEL_REGEX\<close>, \<^verbatim>\<open>^\[((?:[^\[\]\\]|\\.){0,999})\]\<close>.  \<open>labelRun n\<close> is the text of
  the longest sequence of at most \<open>n\<close> tokens; a token is a character other than a bracket
  or a backslash, or a backslash and a character that is no line terminator.  A shorter
  sequence ends before a token, where no \<open>]\<close> stands, so the longest one decides.
\<close>

fun labelRun :: "nat \<Rightarrow> jsstring \<Rightarrow> jsstring" where
  "labelRun 0 s = []"
| "labelRun (Suc n) [] = []"
| "labelRun (Suc n) [c] = (if c = BACKSLASH \<or> c = LBRACKET \<or> c = RBRACKET then [] else [c])"
| "labelRun (Suc n) (c # d # ds) =
     (if c = BACKSLASH then (if isLineTerminator d then [] else c # d # labelRun n ds)
      else if c = LBRACKET \<or> c = RBRACKET then []
      else c # labelRun n (d # ds))"

definition matchLinkLabel :: "jsstring \<Rightarrow> jsstring option" where
  "matchLinkLabel s =
     (case s of
        [] \<Rightarrow> None
      | c # cs \<Rightarrow>
          if c = LBRACKET then
            (let raw = labelRun 999 cs
             in if startsWith (drop (length raw) cs) [RBRACKET] then Some raw else None)
          else None)"

text \<open>\<^verbatim>\<open>/^[ \t]*\n?[ \t]*/\<close>: the length of the match.\<close>

definition beforeDestLength :: "jsstring \<Rightarrow> nat" where
  "beforeDestLength s =
     (let a = takeWhile isIndentChar s
      in case dropWhile isIndentChar s of
           [] \<Rightarrow> length a
         | c # r \<Rightarrow> if c = LF then length a + 1 + length (takeWhile isIndentChar r) else length a)"

text \<open>
  \<open>LINK_DESTINATION_ANGLE_REGEX\<close>, \<^verbatim>\<open>^<([^<>\n\\]|\\.)*>\<close>: \<open>angleRun\<close> is the text between
  the angle brackets, the longest sequence of tokens.
\<close>

fun angleRun :: "jsstring \<Rightarrow> jsstring" where
  "angleRun [] = []"
| "angleRun [c] = (if c = BACKSLASH \<or> c = LT \<or> c = GT \<or> c = LF then [] else [c])"
| "angleRun (c # d # ds) =
     (if c = BACKSLASH then (if isLineTerminator d then [] else c # d # angleRun ds)
      else if c = LT \<or> c = GT \<or> c = LF then []
      else c # angleRun (d # ds))"

definition matchAngleDestination :: "jsstring \<Rightarrow> jsstring option" where
  "matchAngleDestination s =
     (case s of
        [] \<Rightarrow> None
      | c # cs \<Rightarrow>
          if c = LT then
            (let inner = angleRun cs
             in if startsWith (drop (length inner) cs) [GT] then Some inner else None)
          else None)"

text \<open>
  \<open>LINK_DESTINATION_BARE_REGEX\<close>,
  \<^verbatim>\<open>^[^\s<\[\]]*(?:\([^\s<\[\]]*\)[^\s<\[\]]*)*[^\s<\[\]]*\<close>: the class contains both
  parentheses, so the first star takes the whole run of the class and the rest of the
  pattern matches the empty string behind it.
\<close>

definition isBareDestinationChar :: "cu \<Rightarrow> bool" where
  "isBareDestinationChar c = (\<not> isJsWhitespace c \<and> c \<noteq> LT \<and> c \<noteq> LBRACKET \<and> c \<noteq> RBRACKET)"

definition matchBareDestination :: "jsstring \<Rightarrow> jsstring" where
  "matchBareDestination s = takeWhile isBareDestinationChar s"

text \<open>
  Lines 41 to 51 of \<open>parseLinkReferenceDefinition\<close>, on \<open>text.slice(pos)\<close>: the raw
  destination and the length of its match.
\<close>

definition linkDestination :: "jsstring \<Rightarrow> (jsstring \<times> nat) option" where
  "linkDestination s =
     (case matchAngleDestination s of
        Some inner \<Rightarrow> Some (inner, length inner + 2)
      | None \<Rightarrow>
          (let bare = matchBareDestination s
           in if bare = [] then None else Some (bare, length bare)))"

text \<open>
  The three title patterns, \<^verbatim>\<open>^"((?:[^"\\]|\\[\s\S])*)"\<close> and its like: \<open>titleRun stop\<close>
  is the longest sequence of tokens, a token being a character that is neither a
  backslash nor a delimiter (\<open>stop\<close>), or a backslash and any character.
\<close>

fun titleRun :: "(cu \<Rightarrow> bool) \<Rightarrow> jsstring \<Rightarrow> jsstring" where
  "titleRun stop [] = []"
| "titleRun stop [c] = (if c = BACKSLASH \<or> stop c then [] else [c])"
| "titleRun stop (c # d # ds) =
     (if c = BACKSLASH then c # d # titleRun stop ds
      else if stop c then []
      else c # titleRun stop (d # ds))"

definition matchDelimited :: "cu \<Rightarrow> cu \<Rightarrow> (cu \<Rightarrow> bool) \<Rightarrow> jsstring \<Rightarrow> jsstring option" where
  "matchDelimited opening closing stop s =
     (case s of
        [] \<Rightarrow> None
      | c # cs \<Rightarrow>
          if c = opening then
            (let inner = titleRun stop cs
             in if startsWith (drop (length inner) cs) [closing] then Some inner else None)
          else None)"

definition matchTitle :: "jsstring \<Rightarrow> jsstring option" where
  "matchTitle remaining =
     (case matchDelimited DQUOTE DQUOTE (\<lambda>c. c = DQUOTE) remaining of
        Some t \<Rightarrow> Some t
      | None \<Rightarrow>
          (case matchDelimited SQUOTE SQUOTE (\<lambda>c. c = SQUOTE) remaining of
             Some t \<Rightarrow> Some t
           | None \<Rightarrow> matchDelimited LPAREN RPAREN (\<lambda>c. c = LPAREN \<or> c = RPAREN) remaining))"

text \<open>\<^verbatim>\<open>/^[ \t]*(?:\n|$)/\<close>: the length of the match, if there is one.\<close>

definition lineEndLength :: "jsstring \<Rightarrow> nat option" where
  "lineEndLength s =
     (let a = takeWhile isIndentChar s
      in case dropWhile isIndentChar s of
           [] \<Rightarrow> Some (length a)
         | c # r \<Rightarrow> if c = LF then Some (length a + 1) else None)"

definition tryMatchTitle :: "jsstring \<Rightarrow> nat \<Rightarrow> (jsstring \<times> nat) option" where
  "tryMatchTitle text titlePos =
     (case matchTitle (drop titlePos text) of
        None \<Rightarrow> None
      | Some t \<Rightarrow>
          (let afterTitlePos = titlePos + (length t + 2)
           in case lineEndLength (drop afterTitlePos text) of
                None \<Rightarrow> None
              | Some n \<Rightarrow> Some (t, afterTitlePos + n)))"

text \<open>
  Lines 22 to 39: the indentation, the label, the colon and the blank before the
  destination.  The result is the raw label and the position of the destination.
\<close>

definition linkRefHead :: "jsstring \<Rightarrow> (jsstring \<times> nat) option" where
  "linkRefHead text =
     (let pos = min 3 (length (takeWhile (\<lambda>c. c = SP) text))
      in case matchLinkLabel (drop pos text) of
           None \<Rightarrow> None
         | Some rawLabel \<Rightarrow>
             if trim rawLabel = [] then None
             else
               (let pos = pos + (length rawLabel + 2)
                in if pos < length text \<and> text ! pos = COLON
                   then (let pos = pos + 1 in Some (rawLabel, pos + beforeDestLength (drop pos text)))
                   else None))"

text \<open>Lines 53 to 93: the title and the position behind it, when a title is found.\<close>

definition linkRefTitle :: "jsstring \<Rightarrow> nat \<Rightarrow> (jsstring \<times> nat) option" where
  "linkRefTitle text pos =
     (let spaceBeforeTitle = takeWhile isIndentChar (drop pos text);
          first = (if spaceBeforeTitle \<noteq> [] then tryMatchTitle text (pos + length spaceBeforeTitle)
                   else None)
      in case first of
           Some r \<Rightarrow> Some r
         | None \<Rightarrow>
             (case dropWhile isIndentChar (drop pos text) of
                [] \<Rightarrow> None
              | c # r \<Rightarrow>
                  if c = LF
                  then tryMatchTitle text
                         (pos + (length spaceBeforeTitle + 1 + length (takeWhile isIndentChar r)))
                  else None))"

definition parseLinkReferenceDefinition ::
  "lowercase \<Rightarrow> entities \<Rightarrow> jsstring \<Rightarrow> LinkRefResult option" where
  "parseLinkReferenceDefinition toLowerCase HTML_ENTITIES text =
     (case linkRefHead text of
        None \<Rightarrow> None
      | Some (rawLabel, pos) \<Rightarrow>
          (case linkDestination (drop pos text) of
             None \<Rightarrow> None
           | Some (dest, n) \<Rightarrow>
               (let pos = pos + n
                in case linkRefTitle text pos of
                     None \<Rightarrow>
                       (case lineEndLength (drop pos text) of
                          Some m \<Rightarrow>
                            Some \<lparr>label = normalizeLabel toLowerCase (unescapeString rawLabel),
                                  defn =
                                    \<lparr>destination = decodeHtmlEntities HTML_ENTITIES (unescapeString dest),
                                     title = []\<rparr>,
                                  consumed = pos + m\<rparr>
                        | None \<Rightarrow> None)
                   | Some (t, endPos) \<Rightarrow>
                       Some \<lparr>label = normalizeLabel toLowerCase (unescapeString rawLabel),
                             defn =
                               \<lparr>destination = decodeHtmlEntities HTML_ENTITIES (unescapeString dest),
                                title = decodeHtmlEntities HTML_ENTITIES (unescapeString t)\<rparr>,
                             consumed = endPos\<rparr>)))"

section \<open>Storing link reference definitions (block parser)\<close>

lemma linkRefHead_pos: "linkRefHead text = Some (raw, p) \<Longrightarrow> 3 \<le> p"
  by (auto simp: linkRefHead_def Let_def split: option.splits if_splits)

lemma tryMatchTitle_pos: "tryMatchTitle text tp = Some (t, e) \<Longrightarrow> tp \<le> e"
  by (auto simp: tryMatchTitle_def Let_def split: option.splits if_splits)

lemma linkRefTitle_pos: "linkRefTitle text pos = Some (t, e) \<Longrightarrow> pos \<le> e"
  by (auto simp: linkRefTitle_def Let_def split: option.splits if_splits list.splits
      dest!: tryMatchTitle_pos)

lemma parseLinkReferenceDefinition_consumed:
  "parseLinkReferenceDefinition lc E text = Some r \<Longrightarrow> 0 < consumed r"
  by (auto simp: parseLinkReferenceDefinition_def Let_def split: option.splits prod.splits
      dest!: linkRefHead_pos linkRefTitle_pos)

text \<open>
  The side table of link reference definitions: a \<open>Map\<close> from normalized labels.
\<close>

type_synonym linkReferences = "jsstring \<rightharpoonup> LinkReferenceDefinition"

text \<open>
  The loop of \<open>finishParagraph\<close> (and of the setext and table branches) that strips the
  leading link reference definitions from the paragraph text and stores each under its
  label unless the label is already there.  It ends because every definition consumes at
  least one character.
\<close>

function extractLinkReferences ::
  "lowercase \<Rightarrow> entities \<Rightarrow> jsstring \<Rightarrow> linkReferences \<Rightarrow> nat \<Rightarrow> jsstring \<times> linkReferences \<times> nat" where
  "extractLinkReferences lc E text refs consumedTotal =
     (if text = [] then (text, refs, consumedTotal)
      else
        (case parseLinkReferenceDefinition lc E text of
           None \<Rightarrow> (text, refs, consumedTotal)
         | Some result \<Rightarrow>
             extractLinkReferences lc E (drop (consumed result) text)
               (if refs (label result) = None then refs(label result \<mapsto> defn result) else refs)
               (consumedTotal + consumed result)))"
  by pat_completeness auto
termination
  by (relation "measure (\<lambda>(lc, E, text, refs, n). length text)")
     (auto dest!: parseLinkReferenceDefinition_consumed)

declare extractLinkReferences.simps [simp del]


section \<open>Block recognisers (blocks/*.ts)\<close>

abbreviation BACKTICK :: cu where "BACKTICK \<equiv> 0x60"
abbreviation TILDE :: cu where "TILDE \<equiv> 0x7E"
abbreviation PIPE :: cu where "PIPE \<equiv> 0x7C"
abbreviation MINUS :: cu where "MINUS \<equiv> 0x2D"
abbreviation STAR :: cu where "STAR \<equiv> 0x2A"
abbreviation UNDERSCORE :: cu where "UNDERSCORE \<equiv> 0x5F"
abbreviation EQUALS :: cu where "EQUALS \<equiv> 0x3D"
abbreviation SLASH :: cu where "SLASH \<equiv> 0x2F"
abbreviation PLUS :: cu where "PLUS \<equiv> 0x2B"
abbreviation DOT :: cu where "DOT \<equiv> 0x2E"
abbreviation BANG :: cu where "BANG \<equiv> 0x21"
abbreviation QUESTION :: cu where "QUESTION \<equiv> 0x3F"
abbreviation CARET :: cu where "CARET \<equiv> 0x5E"
abbreviation NUL :: cu where "NUL \<equiv> 0x00"

text \<open>
  \<^verbatim>\<open>line.replace(/^ {0,3}/, '')\<close>: the line without its first spaces, three at most.
\<close>

definition stripLeadingSpaces3 :: "jsstring \<Rightarrow> jsstring" where
  "stripLeadingSpaces3 line = drop (min 3 (length (takeWhile (\<lambda>c. c = SP) line))) line"

text \<open>
  \<open>THEMATIC_BREAK_REGEX\<close>, \<^verbatim>\<open>^( {0,3})([-*_])(?:[ \t]*\2){2,}[ \t]*$\<close>: at most three
  spaces, then a marker, then only that marker, spaces and tabs, the marker at least
  twice more.
\<close>

definition isThematicBreak :: "jsstring \<Rightarrow> bool" where
  "isThematicBreak line =
     (length (takeWhile (\<lambda>c. c = SP) line) \<le> 3 \<and>
      (case dropWhile (\<lambda>c. c = SP) line of
         [] \<Rightarrow> False
       | m # r \<Rightarrow>
           (m = MINUS \<or> m = STAR \<or> m = UNDERSCORE) \<and>
           list_all (\<lambda>c. c = m \<or> c = SP \<or> c = TAB) r \<and>
           2 \<le> length (filter (\<lambda>c. c = m) r)))"

text \<open>
  \<open>SETEXT_HEADING_REGEX\<close>, \<^verbatim>\<open>^( {0,3})(=+|-+)[ \t]*$\<close>, for one underline character; the
  block parsers test \<^verbatim>\<open>/^ {0,3}-+[ \t]*$/\<close> and \<^verbatim>\<open>/^ {0,3}=+[ \t]*$/\<close> directly as well.
\<close>

definition isSetextUnderlineOf :: "cu \<Rightarrow> jsstring \<Rightarrow> bool" where
  "isSetextUnderlineOf u line =
     (let rest = dropWhile (\<lambda>c. c = SP) line
      in length (takeWhile (\<lambda>c. c = SP) line) \<le> 3 \<and>
         takeWhile (\<lambda>c. c = u) rest \<noteq> [] \<and>
         list_all isIndentChar (dropWhile (\<lambda>c. c = u) rest))"

definition getSetextLevel :: "jsstring \<Rightarrow> nat option" where
  "getSetextLevel line =
     (if isSetextUnderlineOf EQUALS line then Some 1
      else if isSetextUnderlineOf MINUS line then Some 2
      else None)"

text \<open>
  \<open>parseAtxHeading\<close>.  \<open>ATX_HEADING_REGEX\<close> is \<^verbatim>\<open>^( {0,3})(#{1,6})([ \t].*|[ \t]*)$\<close>: one to
  six hashes, then nothing, or a space or tab and a rest without line terminator (the
  class \<open>.\<close>), or only spaces and tabs.  The closing sequence
  \<^verbatim>\<open>/[ \t]+#+[ \t]*$/\<close> is found from the end of the content: trailing blanks, a run of
  hashes, and the whole run of blanks before it.
\<close>

definition stripClosingHashes :: "jsstring \<Rightarrow> jsstring" where
  "stripClosingHashes content =
     (let t = dropWhile isIndentChar (rev content);
          hashes = takeWhile (\<lambda>c. c = HASH) t;
          t2 = dropWhile (\<lambda>c. c = HASH) t
      in if hashes \<noteq> [] \<and> takeWhile isIndentChar t2 \<noteq> []
         then rev (dropWhile isIndentChar t2) else content)"

definition parseAtxHeading :: "jsstring \<Rightarrow> (nat \<times> jsstring) option" where
  "parseAtxHeading line =
     (let rest = dropWhile (\<lambda>c. c = SP) line;
          hashes = takeWhile (\<lambda>c. c = HASH) rest;
          content = dropWhile (\<lambda>c. c = HASH) rest
      in if length (takeWhile (\<lambda>c. c = SP) line) \<le> 3 \<and>
            1 \<le> length hashes \<and> length hashes \<le> 6 \<and>
            (case content of
               [] \<Rightarrow> True
             | c # r \<Rightarrow> isIndentChar c \<and>
                         (list_all (\<lambda>x. \<not> isLineTerminator x) r \<or> list_all isIndentChar r))
         then Some (length hashes, trim (stripClosingHashes content))
         else None)"

text \<open>
  \<open>parseFenceOpen\<close>: \<^verbatim>\<open>^( {0,3})(`{3,})([^`]*)$\<close>, and when that fails
  \<^verbatim>\<open>^( {0,3})(~{3,})(.*)$\<close>.
\<close>

record FenceInfo =
  fenceIndent :: nat
  fenceChar :: cu
  fenceLength :: nat
  info :: jsstring

definition parseFenceOpen :: "jsstring \<Rightarrow> FenceInfo option" where
  "parseFenceOpen line =
     (let indent = length (takeWhile (\<lambda>c. c = SP) line);
          rest = dropWhile (\<lambda>c. c = SP) line;
          ticks = takeWhile (\<lambda>c. c = BACKTICK) rest;
          afterTicks = dropWhile (\<lambda>c. c = BACKTICK) rest;
          tildes = takeWhile (\<lambda>c. c = TILDE) rest;
          afterTildes = dropWhile (\<lambda>c. c = TILDE) rest
      in if indent \<le> 3 \<and> 3 \<le> length ticks \<and> list_all (\<lambda>c. c \<noteq> BACKTICK) afterTicks
         then Some \<lparr>fenceIndent = indent, fenceChar = BACKTICK, fenceLength = length ticks,
                     info = trim afterTicks\<rparr>
         else if indent \<le> 3 \<and> 3 \<le> length tildes \<and>
                 list_all (\<lambda>c. \<not> isLineTerminator c) afterTildes
         then Some \<lparr>fenceIndent = indent, fenceChar = TILDE, fenceLength = length tildes,
                     info = trim afterTildes\<rparr>
         else None)"

text \<open>
  \<open>isFenceClose\<close>: after at most three spaces, \<^verbatim>\<open>^c{n,}[ \t]*$\<close> for the fence's
  character \<open>c\<close> and length \<open>n\<close>.
\<close>

definition isFenceClose :: "jsstring \<Rightarrow> FenceInfo \<Rightarrow> bool" where
  "isFenceClose line fence =
     (let trimmed = stripLeadingSpaces3 line
      in fenceLength fence \<le> length (takeWhile (\<lambda>c. c = fenceChar fence) trimmed) \<and>
         list_all isIndentChar (dropWhile (\<lambda>c. c = fenceChar fence) trimmed))"

subsection \<open>HTML blocks (blocks/html-block.ts)\<close>

text \<open>
  The patterns carry the flag \<open>i\<close>: without the flag \<open>u\<close> a letter of the pattern matches
  its upper and lower case ASCII forms only.
\<close>

definition asciiLower :: "cu \<Rightarrow> cu" where
  "asciiLower c = (if 0x41 \<le> c \<and> c \<le> 0x5A then c + 0x20 else c)"

definition startsWithIgnoreCase :: "jsstring \<Rightarrow> jsstring \<Rightarrow> bool" where
  "startsWithIgnoreCase s p = (map asciiLower (take (length p) s) = map asciiLower p)"

definition isTagNameChar :: "cu \<Rightarrow> bool" where
  "isTagNameChar c = (isAlnum c \<or> c = MINUS)"

definition isAttributeNameStart :: "cu \<Rightarrow> bool" where
  "isAttributeNameStart c = (isAlpha c \<or> c = UNDERSCORE \<or> c = COLON)"

definition isAttributeNameChar :: "cu \<Rightarrow> bool" where
  "isAttributeNameChar c = (isAlnum c \<or> c = UNDERSCORE \<or> c = DOT \<or> c = COLON \<or> c = MINUS)"

definition isUnquotedValueChar :: "cu \<Rightarrow> bool" where
  "isUnquotedValueChar c =
     (\<not> isJsWhitespace c \<and> c \<noteq> DQUOTE \<and> c \<noteq> SQUOTE \<and> c \<noteq> EQUALS \<and> c \<noteq> LT \<and> c \<noteq> GT
      \<and> c \<noteq> BACKTICK)"

definition TYPE_6_TAGS :: "jsstring list" where
  "TYPE_6_TAGS = map js
     [''address'', ''article'', ''aside'', ''base'', ''basefont'', ''blockquote'', ''body'',
      ''caption'', ''center'', ''col'', ''colgroup'', ''dd'', ''details'', ''dialog'', ''dir'',
      ''div'', ''dl'', ''dt'', ''fieldset'', ''figcaption'', ''figure'', ''footer'', ''form'',
      ''frame'', ''frameset'', ''h1'', ''h2'', ''h3'', ''h4'', ''h5'', ''h6'', ''head'', ''header'',
      ''hr'', ''html'', ''iframe'', ''legend'', ''li'', ''link'', ''main'', ''menu'', ''menuitem'',
      ''nav'', ''noframes'', ''ol'', ''optgroup'', ''option'', ''p'', ''param'', ''search'',
      ''section'', ''summary'', ''table'', ''tbody'', ''td'', ''tfoot'', ''th'', ''thead'',
      ''title'', ''tr'', ''track'', ''ul'']"

text \<open>\<open>s.match(re)\<close> for an unanchored literal pattern: whether \<open>p\<close> occurs in \<open>s\<close>.\<close>

fun containsIgnoreCase :: "jsstring \<Rightarrow> jsstring \<Rightarrow> bool" where
  "containsIgnoreCase [] p = (p = [])"
| "containsIgnoreCase (c # cs) p = (startsWithIgnoreCase (c # cs) p \<or> containsIgnoreCase cs p)"

text \<open>
  \<open>TYPE_1_OPEN_REGEX\<close>, \<^verbatim>\<open>^<(?:pre|script|style|textarea)(?:\s|>|$)\<close>.
\<close>

definition type1OpenWith :: "jsstring \<Rightarrow> jsstring \<Rightarrow> bool" where
  "type1OpenWith name trimmed =
     (startsWithIgnoreCase trimmed (LT # name) \<and>
      (case drop (length name + 1) trimmed of
         [] \<Rightarrow> True
       | c # r \<Rightarrow> isJsWhitespace c \<or> c = GT))"

definition type1Open :: "jsstring \<Rightarrow> bool" where
  "type1Open trimmed =
     (type1OpenWith (js ''pre'') trimmed \<or> type1OpenWith (js ''script'') trimmed \<or>
      type1OpenWith (js ''style'') trimmed \<or> type1OpenWith (js ''textarea'') trimmed)"

text \<open>
  \<open>TYPE_6_OPEN_REGEX\<close>, \<^verbatim>\<open>^<\/?([a-zA-Z][a-zA-Z0-9-]*)(?:\s|\/?>|$)\<close>: the captured tag
  name, which is the whole run of name characters, since what follows it is none.
\<close>

definition type6TagName :: "jsstring \<Rightarrow> jsstring option" where
  "type6TagName trimmed =
     (case trimmed of
        [] \<Rightarrow> None
      | lt # r0 \<Rightarrow>
          (let r = (if startsWith r0 [SLASH] then drop 1 r0 else r0);
               name = takeWhile isTagNameChar r;
               after = dropWhile isTagNameChar r
           in if lt = LT \<and> name \<noteq> [] \<and> isAlpha (hd name) \<and>
                 (case after of
                    [] \<Rightarrow> True
                  | c # a \<Rightarrow> isJsWhitespace c \<or> c = GT \<or> (c = SLASH \<and> startsWith a [GT]))
              then Some name else None))"

text \<open>
  \<open>TYPE_7_OPEN_TAG_REGEX\<close>: a tag name, attributes, an optional slash, \<open>>\<close>, and only
  white space up to the end of the line.  \<open>attributesAndClose\<close> recognises what follows the
  tag name.  An attribute is white space, a name, and optionally \<open>=\<close> and a value between
  white space; the three kinds of value start differently, and the longest unquoted value
  is as good as any shorter one (a shorter one would have to stop before \<open>/>\<close>).  The
  argument \<open>fuel\<close> bounds the number of attributes by the length of the line.
\<close>

definition afterValue :: "jsstring \<Rightarrow> jsstring option" where
  "afterValue s =
     (case s of
        [] \<Rightarrow> None
      | q # r \<Rightarrow>
          if q = SQUOTE \<or> q = DQUOTE then
            (case dropWhile (\<lambda>c. c \<noteq> q) r of [] \<Rightarrow> None | _ # rest \<Rightarrow> Some rest)
          else if isUnquotedValueChar q then Some (dropWhile isUnquotedValueChar r)
          else None)"

fun attributesAndClose :: "nat \<Rightarrow> jsstring \<Rightarrow> bool" where
  "attributesAndClose 0 s = False"
| "attributesAndClose (Suc fuel) s =
     (let ws = takeWhile isJsWhitespace s; r = dropWhile isJsWhitespace s
      in case r of
           [] \<Rightarrow> False
         | c # r1 \<Rightarrow>
             if c = GT then list_all isJsWhitespace r1
             else if c = SLASH then
               (case r1 of [] \<Rightarrow> False | d # r2 \<Rightarrow> d = GT \<and> list_all isJsWhitespace r2)
             else if isAttributeNameStart c \<and> ws \<noteq> [] then
               (let afterName = dropWhile isAttributeNameChar r1;
                    afterBlank = dropWhile isJsWhitespace afterName
                in if startsWith afterBlank [EQUALS] then
                     (case afterValue (dropWhile isJsWhitespace (drop 1 afterBlank)) of
                        None \<Rightarrow> False
                      | Some rest \<Rightarrow> attributesAndClose fuel rest)
                   else attributesAndClose fuel afterName)
             else False)"

definition type7OpenTag :: "jsstring \<Rightarrow> bool" where
  "type7OpenTag trimmed =
     (case trimmed of
        [] \<Rightarrow> False
      | lt # r \<Rightarrow>
          lt = LT \<and> takeWhile isTagNameChar r \<noteq> [] \<and> isAlpha (hd r) \<and>
          attributesAndClose (Suc (length r)) (dropWhile isTagNameChar r))"

text \<open>\<open>TYPE_7_CLOSE_TAG_REGEX\<close>, \<^verbatim>\<open>^<\/([a-zA-Z][a-zA-Z0-9-]*)\s*>\s*$\<close>.\<close>

definition type7CloseTag :: "jsstring \<Rightarrow> bool" where
  "type7CloseTag trimmed =
     (startsWith trimmed (js ''</'') \<and>
      (let r = drop 2 trimmed
       in takeWhile isTagNameChar r \<noteq> [] \<and> isAlpha (hd r) \<and>
          (case dropWhile isJsWhitespace (dropWhile isTagNameChar r) of
             [] \<Rightarrow> False
           | c # rest \<Rightarrow> c = GT \<and> list_all isJsWhitespace rest)))"

definition getHtmlBlockType :: "jsstring \<Rightarrow> bool \<Rightarrow> nat option" where
  "getHtmlBlockType line canInterruptParagraph =
     (let trimmed = stripLeadingSpaces3 line
      in if type1Open trimmed then Some 1
         else if startsWith trimmed (js ''<!--'') then Some 2
         else if startsWith trimmed (js ''<?'') then Some 3
         else if startsWith trimmed (js ''<!'') \<and> 2 < length trimmed \<and> isAlpha (trimmed ! 2) then Some 4
         else if startsWithIgnoreCase trimmed (js ''<![CDATA['') then Some 5
         else if (case type6TagName trimmed of
                    None \<Rightarrow> False
                  | Some name \<Rightarrow> map asciiLower name \<in> set TYPE_6_TAGS) then Some 6
         else if canInterruptParagraph \<and> (type7OpenTag trimmed \<or> type7CloseTag trimmed) then Some 7
         else None)"

definition isHtmlBlockClose :: "jsstring \<Rightarrow> nat option \<Rightarrow> bool" where
  "isHtmlBlockClose line type =
     (if type = Some 1 then
        containsIgnoreCase line (js ''</pre>'') \<or> containsIgnoreCase line (js ''</script>'') \<or>
        containsIgnoreCase line (js ''</style>'') \<or> containsIgnoreCase line (js ''</textarea>'')
      else if type = Some 2 then containsIgnoreCase line (js ''-->'')
      else if type = Some 3 then containsIgnoreCase line (js ''?>'')
      else if type = Some 4 then containsIgnoreCase line (js ''>'')
      else if type = Some 5 then containsIgnoreCase line (js '']]>'')
      else if type = Some 6 \<or> type = Some 7 then trim line = []
      else False)"

subsection \<open>List markers (blocks/list.ts)\<close>

datatype ListType = bullet | ordered

record ListMarker =
  markerType :: ListType
  indent :: nat
  indentChars :: nat
  marker :: jsstring
  bulletChar :: "cu option"
  start :: "nat option"
  delimiter :: "cu option"
  padding :: nat
  paddingChars :: nat
  contentIndent :: nat
  contentCharIndex :: nat

text \<open>
  The last group of both list patterns, \<^verbatim>\<open>( +|\t|$)\<close>: the spaces after the marker, one
  tab, or the empty string at the end of the line.
\<close>

definition spacesAfterMarker :: "jsstring \<Rightarrow> jsstring option" where
  "spacesAfterMarker s =
     (case s of
        [] \<Rightarrow> Some []
      | c # r \<Rightarrow>
          if c = SP then Some (takeWhile (\<lambda>x. x = SP) s)
          else if c = TAB then Some [TAB]
          else None)"

text \<open>
  The part of \<open>parseListMarker\<close> that both branches share: from the indentation, the text
  of the marker and the spaces after it to the marker record.
\<close>

definition makeListMarker ::
  "ListType \<Rightarrow> nat \<Rightarrow> jsstring \<Rightarrow> jsstring \<Rightarrow> cu option \<Rightarrow> nat option \<Rightarrow> cu option \<Rightarrow> ListMarker" where
  "makeListMarker type indentChars' marker' spacesAfter bulletChar' start' delimiter' =
     (let indent' = indentChars';
          columnAfterMarker = indent' + length marker';
          padding' = (if spacesAfter = [TAB] then 4 - columnAfterMarker mod 4
                      else if spacesAfter = [] then 1
                      else length spacesAfter);
          narrow = (spacesAfter = [TAB] \<or> 5 \<le> padding');
          paddingToConsume = (if narrow then 1 else padding');
          paddingChars' = (if narrow then 1 else length spacesAfter)
      in \<lparr>markerType = type, indent = indent', indentChars = indentChars', marker = marker',
          bulletChar = bulletChar', start = start', delimiter = delimiter',
          padding = min paddingToConsume 4, paddingChars = paddingChars',
          contentIndent = indent' + length marker' + paddingToConsume,
          contentCharIndex = indentChars' + length marker' + paddingChars'\<rparr>)"

definition parseListMarker :: "jsstring \<Rightarrow> ListMarker option" where
  "parseListMarker line =
     (let indentChars' = length (takeWhile (\<lambda>c. c = SP) line);
          rest = dropWhile (\<lambda>c. c = SP) line;
          digits = takeWhile isDigit rest;
          afterDigits = dropWhile isDigit rest
      in if 3 < indentChars' then None
         else
           (case rest of
              [] \<Rightarrow> None
            | m # r \<Rightarrow>
                if m = MINUS \<or> m = PLUS \<or> m = STAR then
                  (case spacesAfterMarker r of
                     None \<Rightarrow> None
                   | Some spacesAfter \<Rightarrow>
                       Some (makeListMarker bullet indentChars' [m] spacesAfter (Some m) None None))
                else if 1 \<le> length digits \<and> length digits \<le> 9 then
                  (case afterDigits of
                     [] \<Rightarrow> None
                   | d # r' \<Rightarrow>
                       if d = DOT \<or> d = RPAREN then
                         (case spacesAfterMarker r' of
                            None \<Rightarrow> None
                          | Some spacesAfter \<Rightarrow>
                              Some (makeListMarker ordered indentChars' (digits @ [d]) spacesAfter
                                      None (Some (digitsValue 10 digits)) (Some d)))
                       else None)
                else None))"

definition listsMatch :: "ListMarker \<Rightarrow> ListMarker \<Rightarrow> bool" where
  "listsMatch a b =
     (if markerType a \<noteq> markerType b then False
      else if markerType a = bullet \<and> markerType b = bullet then bulletChar a = bulletChar b
      else if markerType a = ordered \<and> markerType b = ordered then delimiter a = delimiter b
      else False)"

subsection \<open>Footnote labels (inlines/footnote.ts)\<close>

text \<open>
  The loop of \<open>parseFootnoteLabel\<close> from position \<open>pos + 2\<close> on: the label read so far and
  the rest of the text from the character at which the loop stops.
\<close>

fun footnoteLabel_loop :: "jsstring \<Rightarrow> jsstring \<Rightarrow> jsstring \<times> jsstring" where
  "footnoteLabel_loop [] label' = (label', [])"
| "footnoteLabel_loop [c] label' =
     (if c = RBRACKET then (label', [c]) else footnoteLabel_loop [] (label' @ [c]))"
| "footnoteLabel_loop (c # d # ds) label' =
     (if c = BACKSLASH then
        (if d = LBRACKET \<or> d = RBRACKET \<or> d = BACKSLASH then footnoteLabel_loop ds (label' @ [d])
         else footnoteLabel_loop (d # ds) (label' @ [BACKSLASH]))
      else if c = RBRACKET then (label', c # d # ds)
      else footnoteLabel_loop (d # ds) (label' @ [c]))"

record FootnoteLabelMatch =
  fnLabel :: jsstring
  normalized :: jsstring
  fnLength :: nat

definition parseFootnoteLabel :: "lowercase \<Rightarrow> jsstring \<Rightarrow> nat \<Rightarrow> FootnoteLabelMatch option" where
  "parseFootnoteLabel toLowerCase text pos =
     (if startsWith (drop pos text) (js ''[^'') then
        (let (label', rest) = footnoteLabel_loop (drop (pos + 2) text) [];
             i = length text - length rest
         in if rest = [] then None
            else if label' = [] \<or> 999 < length label' then None
            else Some \<lparr>fnLabel = label', normalized = normalizeLabel toLowerCase label',
                       fnLength = i - pos + 1\<rparr>)
      else None)"

section \<open>The syntax tree (types.ts)\<close>

text \<open>
  Inline nodes (a footnote reference: \<open>label\<close>, \<open>key\<close>; a link: \<open>destination\<close>,
  \<open>title\<close>, \<open>children\<close>; an image: \<open>destination\<close>, \<open>title\<close>, \<open>alt\<close>).  A text node carries its literal, the flags \<open>noDelim\<close> and \<open>noSmart\<close>, and
  the property \<open>delimiterOrigLength\<close> that the inline parser attaches to delimiter runs
  (\<open>None\<close> when it is not set).
\<close>

datatype InlineNode =
    Text (literal: jsstring) (noDelim: bool) (noSmart: bool) (delimiterOrigLength: "nat option")
  | Softbreak
  | Hardbreak
  | CodeSpan jsstring
  | Emphasis "InlineNode list"
  | Strong "InlineNode list"
  | Strikethrough "InlineNode list"
  | FootnoteRef jsstring jsstring
  | Link jsstring jsstring "InlineNode list"
  | Image jsstring jsstring jsstring
  | HtmlInline jsstring

datatype TableAlignment = left | center | right

record TableCellNode =
  cellChildren :: "InlineNode list"
  align :: "TableAlignment option"
  cellIsHeader :: bool
  cellRawContent :: "jsstring option"

record TableRowNode =
  rowChildren :: "TableCellNode list"
  rowIsHeader :: bool

record TableNode =
  alignments :: "TableAlignment option list"
  tableChildren :: "TableRowNode list"

text \<open>
  Block nodes, with the fields in the order of types.ts (a code block: \<open>info\<close>,
  \<open>literal\<close>, \<open>fenced\<close>; a list: \<open>listType\<close>, \<open>start\<close>, \<open>tight\<close>, \<open>delimiter\<close>,
  \<open>bulletChar\<close>, \<open>children\<close>).  A paragraph and a heading carry their raw content until the inline phase
  (\<open>rawContent\<close>, \<open>None\<close> once it is deleted).  The field \<open>checked\<close> of a list item is
  \<open>None\<close> as long as the property is absent.
\<close>

datatype BlockNode =
    Paragraph "InlineNode list" "jsstring option"
  | Heading nat "InlineNode list" "jsstring option"
  | ThematicBreak
  | CodeBlock jsstring jsstring bool
  | Blockquote "BlockNode list"
  | List ListType nat bool "cu option" "cu option" "BlockNode list"
  | ListItem "BlockNode list" "bool option"
  | HtmlBlock jsstring
  | Table TableNode

section \<open>Tables (blocks/table.ts)\<close>

text \<open>
  The loop of \<open>splitTableRow\<close> on the rest of the trimmed line: the cell being read, the
  cells read, and the state of the backtick runs.
\<close>

function splitTableRow_loop ::
  "jsstring \<Rightarrow> jsstring \<Rightarrow> jsstring list \<Rightarrow> bool \<Rightarrow> nat \<Rightarrow> jsstring list" where
  "splitTableRow_loop [] current cells inBackticks backtickCount = cells @ [current]"
| "splitTableRow_loop (c # cs) current cells inBackticks backtickCount =
     (if c = BACKTICK then
        (let run = c # takeWhile (\<lambda>x. x = BACKTICK) cs;
             rest = dropWhile (\<lambda>x. x = BACKTICK) cs
         in if \<not> inBackticks then splitTableRow_loop rest (current @ run) cells True (length run)
            else splitTableRow_loop rest (current @ run) cells
                   (if length run = backtickCount then False else inBackticks) backtickCount)
      else if c = BACKSLASH \<and> startsWith cs [PIPE] then
        splitTableRow_loop (drop 1 cs) (current @ [PIPE]) cells inBackticks backtickCount
      else if c = PIPE \<and> \<not> inBackticks then
        splitTableRow_loop cs [] (cells @ [current]) inBackticks backtickCount
      else splitTableRow_loop cs (current @ [c]) cells inBackticks backtickCount)"
  by pat_completeness auto
termination
  by (relation "measure (\<lambda>(s, current, cells, inBackticks, backtickCount). length s)")
     (auto simp: length_dropWhile_le less_Suc_eq_le)

definition endsWith :: "jsstring \<Rightarrow> jsstring \<Rightarrow> bool" where
  "endsWith s p = (length p \<le> length s \<and> drop (length s - length p) s = p)"

definition splitTableRow :: "jsstring \<Rightarrow> jsstring list" where
  "splitTableRow line =
     (let trimmed = trim line;
          trimmed = (if startsWith trimmed [PIPE] then drop 1 trimmed else trimmed);
          trimmed = (if endsWith trimmed [PIPE] \<and> \<not> endsWith trimmed [BACKSLASH, PIPE]
                     then take (length trimmed - 1) trimmed else trimmed)
      in splitTableRow_loop trimmed [] [] False 0)"

text \<open>The test \<^verbatim>\<open>/^:?-+:?$/\<close> of a delimiter cell and the alignment it stands for.\<close>

definition isDelimiterCell :: "jsstring \<Rightarrow> bool" where
  "isDelimiterCell content =
     (let r = (if startsWith content [COLON] then drop 1 content else content);
          after = dropWhile (\<lambda>c. c = MINUS) r
      in takeWhile (\<lambda>c. c = MINUS) r \<noteq> [] \<and> (after = [] \<or> after = [COLON]))"

definition cellAlignment :: "jsstring \<Rightarrow> TableAlignment option" where
  "cellAlignment content =
     (let hasLeftColon = startsWith content [COLON];
          hasRightColon = endsWith content [COLON]
      in if hasLeftColon \<and> hasRightColon then Some center
         else if hasRightColon then Some right
         else if hasLeftColon then Some left
         else None)"

definition parseDelimiterRow :: "jsstring \<Rightarrow> TableAlignment option list option" where
  "parseDelimiterRow line =
     (let cells = splitTableRow (trim line)
      in if cells = [] then None
         else if list_all (\<lambda>cell. isDelimiterCell (trim cell)) cells
         then Some (map (\<lambda>cell. cellAlignment (trim cell)) cells)
         else None)"

text \<open>\<open>isTableRow\<close>: the trimmed line has a pipe that no backslash precedes.\<close>

fun hasUnescapedPipe :: "cu option \<Rightarrow> jsstring \<Rightarrow> bool" where
  "hasUnescapedPipe previous [] = False"
| "hasUnescapedPipe previous (c # cs) =
     ((c = PIPE \<and> previous \<noteq> Some BACKSLASH) \<or> hasUnescapedPipe (Some c) cs)"

definition isTableRow :: "jsstring \<Rightarrow> bool" where
  "isTableRow line = hasUnescapedPipe None (trim line)"

definition isTableStart :: "jsstring \<Rightarrow> jsstring \<Rightarrow> TableAlignment option list option" where
  "isTableStart headerLine delimiterLine =
     (if \<not> isTableRow headerLine then None
      else
        (let headerCells = splitTableRow headerLine
         in if list_all (\<lambda>cell. trim cell = []) headerCells then None
            else
              (case parseDelimiterRow delimiterLine of
                 None \<Rightarrow> None
               | Some alignments' \<Rightarrow>
                   if length headerCells \<noteq> length alignments' then None else Some alignments')))"

definition createTableCellNode :: "TableAlignment option \<Rightarrow> bool \<Rightarrow> TableCellNode" where
  "createTableCellNode align' isHeader =
     \<lparr>cellChildren = [], align = align', cellIsHeader = isHeader, cellRawContent = None\<rparr>"

text \<open>
  \<open>parseTableRowCells\<close>: one cell for each alignment; \<open>cellContents[i]\<close> is undefined behind
  the last cell of the line, and the content is then the empty string.
\<close>

definition parseTableRowCells ::
  "jsstring \<Rightarrow> TableAlignment option list \<Rightarrow> bool \<Rightarrow> TableCellNode list" where
  "parseTableRowCells line alignments' isHeader =
     (let cellContents = splitTableRow line
      in map (\<lambda>i. (createTableCellNode (alignments' ! i) isHeader)
                     \<lparr>cellRawContent :=
                        Some (if i < length cellContents then trim (cellContents ! i) else [])\<rparr>)
           [0..<length alignments'])"

definition createTableRowNode :: "bool \<Rightarrow> TableCellNode list \<Rightarrow> TableRowNode" where
  "createTableRowNode isHeader cells = \<lparr>rowChildren = cells, rowIsHeader = isHeader\<rparr>"

section \<open>The block parsers: state and shared steps\<close>

text \<open>
  \<open>lines.join('\n')\<close> and \<open>input.split('\n')\<close>.
\<close>

fun joinLines :: "jsstring list \<Rightarrow> jsstring" where
  "joinLines [] = []"
| "joinLines [l] = l"
| "joinLines (l # m # ls) = l @ LF # joinLines (m # ls)"

fun splitLines_loop :: "jsstring \<Rightarrow> jsstring \<Rightarrow> jsstring list" where
  "splitLines_loop [] current = [current]"
| "splitLines_loop (c # cs) current =
     (if c = LF then current # splitLines_loop cs [] else splitLines_loop cs (current @ [c]))"

definition splitLines :: "jsstring \<Rightarrow> jsstring list" where
  "splitLines s = splitLines_loop s []"

text \<open>\<open>normalizeLineEndings\<close>: \<^verbatim>\<open>str.replace(/\r\n?/g, '\n')\<close>.\<close>

fun normalizeLineEndings :: "jsstring \<Rightarrow> jsstring" where
  "normalizeLineEndings [] = []"
| "normalizeLineEndings [c] = (if c = CR then [LF] else [c])"
| "normalizeLineEndings (c # d # ds) =
     (if c = CR then (if d = LF then LF # normalizeLineEndings ds else LF # normalizeLineEndings (d # ds))
      else c # normalizeLineEndings (d # ds))"

text \<open>
  The state of \<open>parseBlocks\<close>.  The parser reads \<open>this.lines\<close> from \<open>this.lineIndex\<close> on and
  only ever moves forward: \<open>remaining\<close> is the list of the lines from \<open>lineIndex\<close> on, its
  head is \<open>currentLine()\<close>, and \<open>advance()\<close> drops the head.  \<open>paragraphLines\<close> is the open
  paragraph buffer, \<open>children\<close> the children of the container, \<open>linkReferences\<close> the side
  table.
\<close>

record BlockState =
  remaining :: "jsstring list"
  paragraphLines :: "jsstring list"
  children :: "BlockNode list"
  linkReferences :: linkReferences

record FootnoteDefinition =
  footnoteLabel :: jsstring
  blocks :: "BlockNode list"

record GFMBlockState = BlockState +
  footnoteDefinitions :: "jsstring \<rightharpoonup> FootnoteDefinition"

definition advance :: "('a BlockState_scheme) \<Rightarrow> ('a BlockState_scheme)" where
  "advance st = st\<lparr>remaining := drop 1 (remaining st)\<rparr>"

text \<open>
  The body that \<open>finishParagraph\<close>, the setext branches and the table branch share: strip
  the leading link reference definitions of the joined lines, store them, and trim what
  is left.  The result is the trimmed text, the table and the number of characters the
  definitions took.
\<close>

definition stripLinkReferences ::
  "lowercase \<Rightarrow> entities \<Rightarrow> jsstring list \<Rightarrow> linkReferences \<Rightarrow> jsstring \<times> linkReferences \<times> nat" where
  "stripLinkReferences lc E buffer refs =
     (let (t, refs', n) = extractLinkReferences lc E (joinLines buffer) refs 0
      in (trim t, refs', n))"

text \<open>
  \<open>finishParagraph\<close>; no caller uses the boolean it returns.
\<close>

definition finishParagraph ::
  "lowercase \<Rightarrow> entities \<Rightarrow> ('a BlockState_scheme) \<Rightarrow> ('a BlockState_scheme)" where
  "finishParagraph lc E st =
     (if paragraphLines st \<noteq> [] then
        (let (t, refs', n) = stripLinkReferences lc E (paragraphLines st) (linkReferences st)
         in st\<lparr>paragraphLines := [],
               children := (if t \<noteq> [] then children st @ [Paragraph [] (Some t)] else children st),
               linkReferences := refs'\<rparr>)
      else st)"

section \<open>Tables in the GFM block parser (gfm/block-parser.ts)\<close>

text \<open>\<^verbatim>\<open>line.match(/^ {0,3}>/)\<close>.\<close>

definition isBlockquoteStart :: "jsstring \<Rightarrow> bool" where
  "isBlockquoteStart line = startsWith (stripLeadingSpaces3 line) [GT]"

text \<open>
  The loop of \<open>parseTable\<close> over the body rows: the rows, and the lines that are left.
\<close>

fun parseTable_body :: "TableAlignment option list \<Rightarrow> jsstring list \<Rightarrow> TableRowNode list \<times> jsstring list" where
  "parseTable_body alignments' [] = ([], [])"
| "parseTable_body alignments' (line # rest) =
     (if trim line = [] then ([], line # rest)
      else if isBlockquoteStart line then ([], line # rest)
      else if isThematicBreak line then ([], line # rest)
      else if parseAtxHeading line \<noteq> None then ([], line # rest)
      else if parseFenceOpen line \<noteq> None then ([], line # rest)
      else if getHtmlBlockType line True \<noteq> None then ([], line # rest)
      else
        (let (rows, rest') = parseTable_body alignments' rest
         in (createTableRowNode False (parseTableRowCells line alignments' False) # rows, rest')))"

text \<open>
  \<open>parseTable(headerLine, alignments)\<close>: the current line is the delimiter row; the table
  and the lines behind it.
\<close>

definition parseTable ::
  "jsstring \<Rightarrow> TableAlignment option list \<Rightarrow> jsstring list \<Rightarrow> TableNode \<times> jsstring list" where
  "parseTable headerLine alignments' lines =
     (let headerRow = createTableRowNode True (parseTableRowCells headerLine alignments' True);
          (rows, rest') = parseTable_body alignments' (drop 1 lines)
      in (\<lparr>alignments = alignments', tableChildren = headerRow # rows\<rparr>, rest'))"

text \<open>
  The table branch of \<open>GFMBlockParser.parseBlocks\<close> (lines 160 to 189) for the current line
  \<open>line\<close>: \<open>Some\<close> of the next state when the branch opens a table and continues the loop,
  \<open>None\<close> when the loop body goes on to its next branch with the state unchanged.
\<close>

definition tableBranch ::
  "lowercase \<Rightarrow> entities \<Rightarrow> bool \<Rightarrow> GFMBlockState \<Rightarrow> jsstring \<Rightarrow> GFMBlockState option" where
  "tableBranch lc E enableTables st line =
     (if enableTables \<and> 1 \<le> length (paragraphLines st) then
        (let lastLine = last (paragraphLines st)
         in if isTableRow lastLine then
              (case isTableStart lastLine line of
                 None \<Rightarrow> None
               | Some alignments' \<Rightarrow>
                   (let st1 =
                          (if 1 < length (paragraphLines st) then
                             (let (t, refs', n) =
                                    stripLinkReferences lc E (butlast (paragraphLines st))
                                      (linkReferences st)
                              in st\<lparr>children := (if t \<noteq> [] then children st @ [Paragraph [] (Some t)]
                                                 else children st),
                                    linkReferences := refs'\<rparr>)
                           else st);
                        (table, rest') = parseTable lastLine alignments' (remaining st1)
                    in Some (st1\<lparr>paragraphLines := [], children := children st1 @ [Table table],
                                 remaining := rest'\<rparr>)))
            else None)
      else None)"

section \<open>Task lists (blocks/task-list.ts)\<close>

text \<open>
  \<open>TASK_LIST_MARKER\<close>, \<^verbatim>\<open>^\[([ xX])\](?=\s)\<close>: the result is the field \<open>checked\<close>; the
  length of the marker is always 3.
\<close>

definition parseTaskListMarker :: "jsstring \<Rightarrow> bool option" where
  "parseTaskListMarker s =
     (case s of
        a # c # b # w # rest \<Rightarrow>
          if a = LBRACKET \<and> (c = SP \<or> c = of_char CHR ''x'' \<or> c = of_char CHR ''X'') \<and>
             b = RBRACKET \<and> isJsWhitespace w
          then Some (c = of_char CHR ''x'' \<or> c = of_char CHR ''X'')
          else None
      | _ \<Rightarrow> None)"

text \<open>\<^verbatim>\<open>s.slice(3).replace(/^\s/, '')\<close>.\<close>

definition dropMarker :: "jsstring \<Rightarrow> jsstring" where
  "dropMarker s =
     (case drop 3 s of
        [] \<Rightarrow> []
      | w # rest \<Rightarrow> if isJsWhitespace w then rest else w # rest)"

text \<open>
  \<open>processTaskListItem\<close> changes the item in place; the model returns the changed item.
  Lists hold list items only, and the function leaves any other node as it is.
\<close>

fun processTaskListItem :: "BlockNode \<Rightarrow> BlockNode" where
  "processTaskListItem (ListItem (Paragraph inlines (Some rawContent) # rest) checked) =
     (case parseTaskListMarker rawContent of
        Some result \<Rightarrow> ListItem (Paragraph inlines (Some (dropMarker rawContent)) # rest) (Some result)
      | None \<Rightarrow> ListItem (Paragraph inlines (Some rawContent) # rest) checked)"
| "processTaskListItem (ListItem (Paragraph (Text lit nd ns ol # inlines) None # rest) checked) =
     (case parseTaskListMarker lit of
        Some result \<Rightarrow>
          ListItem
            (Paragraph (if dropMarker lit = [] then inlines else Text (dropMarker lit) nd ns ol # inlines)
               None # rest)
            (Some result)
      | None \<Rightarrow> ListItem (Paragraph (Text lit nd ns ol # inlines) None # rest) checked)"
| "processTaskListItem item = item"

text \<open>The children of a list item, for the walk of \<open>processTaskLists\<close>.\<close>

fun itemChildren :: "BlockNode \<Rightarrow> BlockNode list" where
  "itemChildren (ListItem cs checked) = cs"
| "itemChildren other = []"

fun withItemChildren :: "BlockNode \<Rightarrow> BlockNode list \<Rightarrow> BlockNode" where
  "withItemChildren (ListItem cs checked) cs' = ListItem cs' checked"
| "withItemChildren other cs' = other"

lemma size_processTaskListItem:
  "size_list size (itemChildren (processTaskListItem item)) \<le> size_list size (itemChildren item)"
  by (induction item rule: processTaskListItem.induct) (auto split: option.splits)

lemma size_itemChildren: "size_list size (itemChildren item) < Suc (size item)"
  by (cases item) auto

text \<open>
  \<open>processTaskLists\<close>, one block at a time: each item of a list is processed and then its
  children are walked; the children of a blockquote are walked.
\<close>

function processTaskLists_block :: "BlockNode \<Rightarrow> BlockNode" where
  "processTaskLists_block (List t s tg d b items) =
     List t s tg d b
       (map (\<lambda>item.
               withItemChildren (processTaskListItem item)
                 (map processTaskLists_block (itemChildren (processTaskListItem item))))
          items)"
| "processTaskLists_block (Blockquote cs) = Blockquote (map processTaskLists_block cs)"
| "processTaskLists_block (Paragraph i r) = Paragraph i r"
| "processTaskLists_block (Heading n i r) = Heading n i r"
| "processTaskLists_block ThematicBreak = ThematicBreak"
| "processTaskLists_block (CodeBlock i l f) = CodeBlock i l f"
| "processTaskLists_block (ListItem cs c) = ListItem cs c"
| "processTaskLists_block (HtmlBlock l) = HtmlBlock l"
| "processTaskLists_block (Table t) = Table t"
  by pat_completeness auto
termination
proof (relation "measure size")
  show "wf (measure size)" by simp
next
  fix t s tg d b and items :: "BlockNode list" and item x :: BlockNode
  assume a: "item \<in> set items" "x \<in> set (itemChildren (processTaskListItem item))"
  have "size x \<le> size_list size (itemChildren (processTaskListItem item))"
    using a(2) by (simp add: size_list_estimation')
  also have "\<dots> \<le> size_list size (itemChildren item)" by (rule size_processTaskListItem)
  also have "\<dots> < Suc (size item)" by (rule size_itemChildren)
  also have "\<dots> \<le> Suc (size_list size items)"
    using a(1) by (simp add: size_list_estimation')
  finally show "(x, List t s tg d b items) \<in> measure size" by simp
next
  fix cs :: "BlockNode list" and x :: BlockNode
  assume "x \<in> set cs"
  then have "size x \<le> size_list size cs" by (simp add: size_list_estimation')
  then show "(x, Blockquote cs) \<in> measure size" by simp
qed

definition processTaskLists :: "BlockNode list \<Rightarrow> BlockNode list" where
  "processTaskLists blocks' = map processTaskLists_block blocks'"

section \<open>Extended autolinks (gfm autolink-extended)\<close>



























section \<open>The CommonMark block parser (block-parser.ts)\<close>

text \<open>
  A nested parser (\<open>new BlockParser().parse(...)\<close> for the content of a blockquote or of
  a list item) is a parameter \<open>sub\<close> of the functions below; it returns the children of
  the nested document and its side tables, or \<open>None\<close> when the model's fuel for nested
  parsers is used up.  \<open>mergeSubResult\<close> is the first-wins merge of the nested tables
  into the parser's own.  The result has a field for the footnote definitions, which only
  the GFM parser fills.
\<close>

record SubResult =
  subChildren :: "BlockNode list"
  subLinkReferences :: linkReferences
  subFootnoteDefinitions :: "jsstring \<rightharpoonup> FootnoteDefinition"

type_synonym subparser = "jsstring \<Rightarrow> SubResult option"

definition mergeFirstWins :: "('k \<rightharpoonup> 'v) \<Rightarrow> ('k \<rightharpoonup> 'v) \<Rightarrow> ('k \<rightharpoonup> 'v)" where
  "mergeFirstWins own nested = (\<lambda>k. case own k of Some v \<Rightarrow> Some v | None \<Rightarrow> nested k)"

definition mergeSubResult :: "SubResult \<Rightarrow> BlockState \<Rightarrow> BlockState" where
  "mergeSubResult r st =
     st\<lparr>linkReferences := mergeFirstWins (linkReferences st) (subLinkReferences r)\<rparr>"

subsection \<open>Blockquotes\<close>

text \<open>
  \<open>extractBlockquoteContent\<close>: the line behind at most three spaces, the \<open>>\<close> and one
  optional space or tab, with the tabs expanded in the columns of the line.
\<close>

definition extractBlockquoteContent :: "jsstring \<Rightarrow> jsstring" where
  "extractBlockquoteContent line =
     (let charIndex = min 3 (length (takeWhile (\<lambda>c. c = SP) line));
          column = charIndex + 1
      in case drop (charIndex + 1) line of
           [] \<Rightarrow> []
         | c # r \<Rightarrow>
             if c = TAB then
               (let tabWidth = 4 - column mod 4
                in replicate (tabWidth - 1) SP @ expandRest_loop r (column + tabWidth))
             else if c = SP then expandRest_loop r (column + 1)
             else expandRest_loop (c # r) column)"

definition lastNonBlankLine :: "jsstring list \<Rightarrow> jsstring option" where
  "lastNonBlankLine lines =
     (case dropWhile (\<lambda>l. trim l = []) (rev lines) of [] \<Rightarrow> None | l # _ \<Rightarrow> Some l)"

function getBlockquotePrefix :: "jsstring \<Rightarrow> jsstring" where
  "getBlockquotePrefix line =
     (if line = [] then []
      else
        (let spaces = min 3 (length (takeWhile (\<lambda>c. c = SP) line))
         in if startsWith (drop spaces line) [GT] then
              (let i = spaces + 1 +
                     (if startsWith (drop (spaces + 1) line) [SP] \<or>
                         startsWith (drop (spaces + 1) line) [TAB] then 1 else 0)
               in take i line @ getBlockquotePrefix (drop i line))
            else []))"
  by pat_completeness auto
termination
  by (relation "measure length") auto

declare getBlockquotePrefix.simps [simp del]

definition allowsLazyAfterListMarker :: "jsstring \<Rightarrow> bool" where
  "allowsLazyAfterListMarker line =
     (case parseListMarker line of
        None \<Rightarrow> True
      | Some m \<Rightarrow> startsWith (dropWhile isIndentChar (drop (contentCharIndex m) line)) [GT])"

text \<open>
  The loop of the blockquote branch: the quoted lines read so far, the open fence inside
  the quote, and the lines that are left.
\<close>

fun blockquoteLines ::
  "jsstring list \<Rightarrow> jsstring list \<Rightarrow> FenceInfo option \<Rightarrow> jsstring list \<times> jsstring list" where
  "blockquoteLines [] quoteLines inFence = (quoteLines, [])"
| "blockquoteLines (quoteLine # rest) quoteLines inFence =
     (if isBlockquoteStart quoteLine then
        (let content = extractBlockquoteContent quoteLine;
             inFence' = (case inFence of
                           Some f \<Rightarrow> if isFenceClose content f then None else Some f
                         | None \<Rightarrow> parseFenceOpen content)
         in blockquoteLines rest (quoteLines @ [content]) inFence')
      else if trim quoteLine = [] then (quoteLines, quoteLine # rest)
      else if quoteLines \<noteq> [] then
        (if inFence \<noteq> None then (quoteLines, quoteLine # rest)
         else if isThematicBreak quoteLine \<or> parseFenceOpen quoteLine \<noteq> None
         then (quoteLines, quoteLine # rest)
         else if trim (last quoteLines) = [] then (quoteLines, quoteLine # rest)
         else
           (case lastNonBlankLine quoteLines of
              None \<Rightarrow> (quoteLines, quoteLine # rest)
            | Some lastContent \<Rightarrow>
                if parseFenceOpen lastContent = None \<and> getIndent lastContent < 4 \<and>
                   allowsLazyAfterListMarker lastContent
                then blockquoteLines rest
                       (quoteLines @ [getBlockquotePrefix lastContent @ NUL # quoteLine]) inFence
                else (quoteLines, quoteLine # rest)))
      else (quoteLines, quoteLine # rest))"

definition blockquoteBranch ::
  "subparser \<Rightarrow> (SubResult \<Rightarrow> 'a BlockState_scheme \<Rightarrow> 'a BlockState_scheme) \<Rightarrow>
   'a BlockState_scheme \<Rightarrow> 'a BlockState_scheme option" where
  "blockquoteBranch sub merge st =
     (let (quoteLines, rest) = blockquoteLines (remaining st) [] None
      in case sub (joinLines quoteLines) of
           None \<Rightarrow> None
         | Some r \<Rightarrow>
             Some ((merge r st)\<lparr>remaining := rest,
                                children := children st @ [Blockquote (subChildren r)]\<rparr>))"

subsection \<open>Lists\<close>

text \<open>
  The column after the characters of \<open>s\<close>, from column \<open>column\<close> on (the first loop of
  \<open>extractListItemContent\<close>).
\<close>

fun columnAfter :: "jsstring \<Rightarrow> nat \<Rightarrow> nat" where
  "columnAfter [] column = column"
| "columnAfter (c # cs) column =
     columnAfter cs (if c = TAB then column + (4 - column mod 4) else column + 1)"

definition extractListItemContent :: "jsstring \<Rightarrow> ListMarker \<Rightarrow> jsstring" where
  "extractListItemContent line m =
     (let column = columnAfter (take (indentChars m) line) 0 + length (marker m);
          charIndex = min (length line) (indentChars m) + length (marker m)
      in if charIndex < length line \<and> 0 < paddingChars m then
           (if line ! charIndex = TAB then
              (let tabWidth = 4 - column mod 4;
                   consumed' = min tabWidth (padding m);
                   remaining' = tabWidth - consumed'
               in replicate remaining' SP @
                  expandRest_loop (drop (charIndex + paddingChars m) line)
                    (column + consumed' + remaining'))
            else expandRest_loop (drop (charIndex + paddingChars m) line) (column + padding m))
         else expandRest_loop (drop charIndex line) column)"

text \<open>The variables of the loop of \<open>parseListItem\<close>.\<close>

record ItemState =
  itemLines :: "jsstring list"
  sawBlankLine :: bool
  blankLineInItem :: bool
  trailingBlanks :: nat
  lastNonBlankIndent :: "nat option"
  lastNonBlankWasListMarker :: bool
  sawNonBlankContent :: bool
  inFence :: "FenceInfo option"

fun listItemLines :: "ListMarker \<Rightarrow> jsstring list \<Rightarrow> ItemState \<Rightarrow> ItemState \<times> jsstring list" where
  "listItemLines m [] s = (s, [])"
| "listItemLines m (raw # rest) s =
     (let lazyLine = startsWith raw [NUL];
          line = (if lazyLine then drop 1 raw else raw);
          lineIndent = getIndent line
      in case inFence s of
           Some f \<Rightarrow>
             (let contentLine = (if contentIndent m \<le> lineIndent
                                 then removeIndent line (contentIndent m) else line)
              in listItemLines m rest
                   (s\<lparr>itemLines := itemLines s @ [contentLine],
                      inFence := (if isFenceClose contentLine f then None else Some f)\<rparr>))
         | None \<Rightarrow>
             if trim line = [] then
               listItemLines m rest
                 (s\<lparr>sawBlankLine := True, trailingBlanks := trailingBlanks s + 1,
                    itemLines := itemLines s @ [[]]\<rparr>)
             else
               (let newMarker = (if lazyLine then None else parseListMarker line)
                in if (case newMarker of
                         Some nm \<Rightarrow> listsMatch m nm \<and> indent nm < contentIndent m
                       | None \<Rightarrow> False)
                   then (s, raw # rest)
                   else if \<not> sawNonBlankContent s \<and> sawBlankLine s \<and> contentIndent m \<le> lineIndent
                   then (s, raw # rest)
                   else if contentIndent m \<le> lineIndent then
                     (let contentLine = removeIndent line (contentIndent m);
                          isListMarker = (parseListMarker contentLine \<noteq> None);
                          blank = (if sawBlankLine s \<and>
                                      (lineIndent \<le> contentIndent m + 1 \<or>
                                       (case lastNonBlankIndent s of
                                          Some i \<Rightarrow> i \<le> contentIndent m + 1 \<and>
                                                    \<not> lastNonBlankWasListMarker s
                                        | None \<Rightarrow> False))
                                   then True else blankLineInItem s)
                      in listItemLines m rest
                           (s\<lparr>blankLineInItem := blank, sawBlankLine := False, trailingBlanks := 0,
                              itemLines := itemLines s @ [contentLine],
                              lastNonBlankIndent := Some lineIndent,
                              lastNonBlankWasListMarker := isListMarker,
                              sawNonBlankContent := True,
                              inFence := parseFenceOpen contentLine\<rparr>))
                   else if sawBlankLine s then (s, raw # rest)
                   else if \<not> isThematicBreak line \<and> parseAtxHeading line = None \<and>
                           parseFenceOpen line = None \<and> \<not> isBlockquoteStart line \<and>
                           newMarker = None
                   then listItemLines m rest
                          (s\<lparr>trailingBlanks := 0, itemLines := itemLines s @ [line],
                             lastNonBlankIndent := Some lineIndent,
                             lastNonBlankWasListMarker := False,
                             sawNonBlankContent := True\<rparr>)
                   else (s, raw # rest)))"

definition isParagraph :: "BlockNode \<Rightarrow> bool" where
  "isParagraph b = (case b of Paragraph _ _ \<Rightarrow> True | _ \<Rightarrow> False)"

text \<open>
  The start of \<open>parseListItem(item, marker)\<close> on the current line \<open>raw\<close>: the variables
  before the loop.
\<close>

definition listItemStart :: "ListMarker \<Rightarrow> jsstring \<Rightarrow> ItemState" where
  "listItemStart m raw =
     (let firstLine = (if startsWith raw [NUL] then drop 1 raw else raw);
          firstContent = extractListItemContent firstLine m;
          nonBlank = (trim firstContent \<noteq> []);
          first = (if \<not> nonBlank \<and>
                      (case drop (indentChars m + length (marker m)) firstLine of
                         [] \<Rightarrow> False
                       | c # _ \<Rightarrow> isIndentChar c)
                   then [] else firstContent)
      in \<lparr>itemLines = [first], sawBlankLine = False, blankLineInItem = False,
          trailingBlanks = 0,
          lastNonBlankIndent = (if nonBlank then Some (contentIndent m) else None),
          lastNonBlankWasListMarker = (nonBlank \<and> parseListMarker firstContent \<noteq> None),
          sawNonBlankContent = nonBlank,
          inFence = (if nonBlank then parseFenceOpen firstContent else None)\<rparr>)"

text \<open>
  \<open>parseListItem(item, marker)\<close> with the current line \<open>raw\<close> and the lines \<open>rest\<close> behind
  it: the item, \<open>blankInItem\<close>, \<open>endsWithBlank\<close> and the next state.
\<close>

definition parseListItem ::
  "subparser \<Rightarrow> (SubResult \<Rightarrow> 'a BlockState_scheme \<Rightarrow> 'a BlockState_scheme) \<Rightarrow> ListMarker \<Rightarrow>
   jsstring \<Rightarrow> jsstring list \<Rightarrow> 'a BlockState_scheme \<Rightarrow>
   (BlockNode \<times> bool \<times> bool \<times> 'a BlockState_scheme) option" where
  "parseListItem sub merge m raw rest st =
     (let (s, rest') = listItemLines m rest (listItemStart m raw);
          endsWithBlank = (0 < trailingBlanks s);
          lines = rev (dropWhile (\<lambda>l. l = []) (rev (itemLines s)))
      in case sub (joinLines lines) of
           None \<Rightarrow> None
         | Some r \<Rightarrow>
             Some (ListItem (subChildren r) None,
                   blankLineInItem s \<or> 2 \<le> length (filter isParagraph (subChildren r)),
                   endsWithBlank,
                   (merge r st)\<lparr>remaining := rest'\<rparr>))"

lemma listItemLines_length: "length (snd (listItemLines m ls s)) \<le> length ls"
proof (induction ls arbitrary: s)
  case Nil
  show ?case by simp
next
  case (Cons raw rest)
  have le: "\<And>s'. length (snd (listItemLines m rest s')) \<le> Suc (length rest)"
    using Cons.IH le_SucI by blast
  show ?case
    by (simp add: Let_def le split: option.split)
qed

lemma parseListItem_remaining:
  assumes "parseListItem sub merge m raw rest st = Some (item, b, e, st')"
  shows "length (remaining st') \<le> length rest"
proof -
  obtain s rest' where eq: "listItemLines m rest (listItemStart m raw) = (s, rest')"
    by (cases "listItemLines m rest (listItemStart m raw)")
  from assms have "remaining st' = rest'"
    by (auto simp: parseListItem_def eq Let_def split: option.splits)
  with listItemLines_length[of m rest "listItemStart m raw"] eq show ?thesis by simp
qed

text \<open>The variables of the loop of \<open>parseList\<close>.\<close>

record ListState =
  listChildren :: "BlockNode list"
  sawBlankLineInList :: bool
  sawBlankLineInItem :: bool
  sawBlankBetweenItems :: bool

text \<open>
  The marker of the line when it has one and \<open>listsMatch(firstMarker, marker)\<close> holds.
\<close>

definition matchingMarker :: "ListMarker \<Rightarrow> jsstring \<Rightarrow> ListMarker option" where
  "matchingMarker firstMarker line =
     (case parseListMarker line of
        None \<Rightarrow> None
      | Some m \<Rightarrow> if listsMatch firstMarker m then Some m else None)"

function parseList_loop ::
  "subparser \<Rightarrow> (SubResult \<Rightarrow> 'a BlockState_scheme \<Rightarrow> 'a BlockState_scheme) \<Rightarrow> ListMarker \<Rightarrow>
   ListState \<Rightarrow> 'a BlockState_scheme \<Rightarrow> (ListState \<times> 'a BlockState_scheme) option" where
  "parseList_loop sub merge firstMarker ls st =
     (case remaining st of
        [] \<Rightarrow> Some (ls, st)
      | line # rest \<Rightarrow>
          if isThematicBreak line then Some (ls, st)
          else
            (case matchingMarker firstMarker line of
               Some m \<Rightarrow>
                 (case parseListItem sub merge m line rest st of
                    None \<Rightarrow> None
                  | Some (item, blankInItem, endsWithBlank, st') \<Rightarrow>
                      parseList_loop sub merge firstMarker
                        (ls\<lparr>listChildren := listChildren ls @ [item],
                            sawBlankBetweenItems :=
                              (sawBlankBetweenItems ls \<or> sawBlankLineInList ls),
                            sawBlankLineInItem := (sawBlankLineInItem ls \<or> blankInItem),
                            sawBlankLineInList := endsWithBlank\<rparr>)
                        st')
             | None \<Rightarrow>
                 if trim line = [] then
                   (case dropWhile (\<lambda>l. trim l = []) rest of
                      [] \<Rightarrow> Some (ls\<lparr>sawBlankLineInList := True\<rparr>, st\<lparr>remaining := rest\<rparr>)
                    | nextLine # _ \<Rightarrow>
                        if matchingMarker firstMarker nextLine = None \<and>
                           getIndent nextLine < contentIndent firstMarker
                        then Some (ls\<lparr>sawBlankLineInList := True\<rparr>, st\<lparr>remaining := rest\<rparr>)
                        else parseList_loop sub merge firstMarker
                               (ls\<lparr>sawBlankLineInList := True\<rparr>) (st\<lparr>remaining := rest\<rparr>))
                 else Some (ls, st)))"
  by pat_completeness auto
termination
  by (relation "measure (\<lambda>(sub, merge, firstMarker, ls, st). length (remaining st))")
     (auto dest!: parseListItem_remaining)

declare parseList_loop.simps [simp del]

text \<open>\<open>createListNode(listMarker)\<close> and \<open>parseList(list, listMarker)\<close>.\<close>

definition parseList ::
  "subparser \<Rightarrow> (SubResult \<Rightarrow> 'a BlockState_scheme \<Rightarrow> 'a BlockState_scheme) \<Rightarrow> ListMarker \<Rightarrow>
   'a BlockState_scheme \<Rightarrow> 'a BlockState_scheme option" where
  "parseList sub merge firstMarker st =
     (case parseList_loop sub merge firstMarker
             \<lparr>listChildren = [], sawBlankLineInList = False, sawBlankLineInItem = False,
              sawBlankBetweenItems = False\<rparr> st of
        None \<Rightarrow> None
      | Some (ls, st') \<Rightarrow>
          Some (st'\<lparr>children := children st' @
                  [List (markerType firstMarker)
                     (case start firstMarker of Some n \<Rightarrow> n | None \<Rightarrow> 1)
                     (\<not> (sawBlankLineInItem ls \<or> sawBlankBetweenItems ls))
                     (delimiter firstMarker) (bulletChar firstMarker) (listChildren ls)]\<rparr>))"

subsection \<open>Code blocks and HTML blocks\<close>

text \<open>
  The loop of the fenced code branch: the lines of the block, whether the fence was
  closed, and the lines that are left.
\<close>

fun fencedCodeLines :: "FenceInfo \<Rightarrow> jsstring list \<Rightarrow> jsstring list \<times> bool \<times> jsstring list" where
  "fencedCodeLines f [] = ([], False, [])"
| "fencedCodeLines f (codeLine # rest) =
     (if isFenceClose codeLine f then ([], True, rest)
      else (let (codeLines, closedProperly, rest') = fencedCodeLines f rest
            in (codeLine # codeLines, closedProperly, rest')))"

text \<open>\<^verbatim>\<open>while (lines.length > 0 && lines[lines.length - 1] === '') lines.pop()\<close>.\<close>

definition popEmptyLines :: "jsstring list \<Rightarrow> jsstring list" where
  "popEmptyLines lines = rev (dropWhile (\<lambda>l. l = []) (rev lines))"

definition createFencedCodeBlock :: "jsstring \<Rightarrow> jsstring list \<Rightarrow> nat \<Rightarrow> BlockNode" where
  "createFencedCodeBlock info' lines indent' =
     (let content =
            joinLines (map (\<lambda>line. drop (min indent' (length (takeWhile (\<lambda>c. c = SP) line))) line)
                         lines);
          hasContent = (lines \<noteq> [] \<and> (1 < length lines \<or> hd lines \<noteq> []))
      in CodeBlock info' (if hasContent then content @ [LF] else []) True)"

definition fencedCodeBranch ::
  "lowercase \<Rightarrow> entities \<Rightarrow> FenceInfo \<Rightarrow> 'a BlockState_scheme \<Rightarrow> 'a BlockState_scheme" where
  "fencedCodeBranch lc E fence st =
     (let st1 = finishParagraph lc E st;
          (codeLines, closedProperly, rest') = fencedCodeLines fence (drop 1 (remaining st1));
          codeLines' = (if closedProperly then codeLines else popEmptyLines codeLines);
          info' = unescapeString (decodeHtmlEntities E (info fence))
      in st1\<lparr>remaining := rest',
              children := children st1 @
                [createFencedCodeBlock info' codeLines' (fenceIndent fence)]\<rparr>)"

text \<open>The loop of the indented code branch behind its first line.\<close>

fun indentedCodeLines :: "jsstring list \<Rightarrow> jsstring list \<times> jsstring list" where
  "indentedCodeLines [] = ([], [])"
| "indentedCodeLines (codeLine # rest) =
     (if 4 \<le> getIndent codeLine then
        (let (codeLines, rest') = indentedCodeLines rest
         in (removeIndent codeLine 4 # codeLines, rest'))
      else if trim codeLine = [] then
        (let (codeLines, rest') = indentedCodeLines rest in ([] # codeLines, rest'))
      else ([], codeLine # rest))"

definition createIndentedCodeBlock :: "jsstring list \<Rightarrow> BlockNode" where
  "createIndentedCodeBlock lines = CodeBlock [] (joinLines lines @ [LF]) False"

definition indentedCodeBranch :: "jsstring \<Rightarrow> 'a BlockState_scheme \<Rightarrow> 'a BlockState_scheme" where
  "indentedCodeBranch line st =
     (let (codeLines, rest') = indentedCodeLines (drop 1 (remaining st))
      in st\<lparr>remaining := rest',
            children := children st @
              [createIndentedCodeBlock (popEmptyLines (removeIndent line 4 # codeLines))]\<rparr>)"

text \<open>
  The loop of the HTML block branch behind the first line of a block of type \<open>htmlType\<close>:
  a block of type 6 or 7 ends before a blank line; a block of type 1 to 5 takes every
  line up to and including the first one that closes it.
\<close>

fun htmlBlockLines :: "nat \<Rightarrow> jsstring list \<Rightarrow> jsstring list \<times> jsstring list" where
  "htmlBlockLines htmlType [] = ([], [])"
| "htmlBlockLines htmlType (htmlLine # rest) =
     (if htmlType = 6 \<or> htmlType = 7 then
        (if trim htmlLine = [] then ([], htmlLine # rest)
         else (let (htmlLines, rest') = htmlBlockLines htmlType rest
               in (htmlLine # htmlLines, rest')))
      else if isHtmlBlockClose htmlLine (Some htmlType) then ([htmlLine], rest)
      else (let (htmlLines, rest') = htmlBlockLines htmlType rest
            in (htmlLine # htmlLines, rest')))"

definition htmlBlockBranch ::
  "lowercase \<Rightarrow> entities \<Rightarrow> nat \<Rightarrow> jsstring \<Rightarrow> 'a BlockState_scheme \<Rightarrow> 'a BlockState_scheme" where
  "htmlBlockBranch lc E htmlType line st =
     (let st1 = finishParagraph lc E st;
          closeOnSameLine = (1 \<le> htmlType \<and> htmlType \<le> 5 \<and> isHtmlBlockClose line (Some htmlType));
          (htmlLines, rest') = (if closeOnSameLine then ([], drop 1 (remaining st1))
                                else htmlBlockLines htmlType (drop 1 (remaining st1)))
      in st1\<lparr>remaining := rest',
              children := children st1 @ [HtmlBlock (joinLines (line # htmlLines) @ [LF])]\<rparr>)"

subsection \<open>The loop body\<close>

text \<open>
  The setext branch for an underline of \<open>=\<close> (the same in both parsers).
\<close>

definition setextEqualsBranch ::
  "lowercase \<Rightarrow> entities \<Rightarrow> jsstring \<Rightarrow> 'a BlockState_scheme \<Rightarrow> 'a BlockState_scheme" where
  "setextEqualsBranch lc E line st =
     (let (content, refs', n) = stripLinkReferences lc E (paragraphLines st) (linkReferences st)
      in advance
           (if content \<noteq> [] then
              st\<lparr>paragraphLines := [], linkReferences := refs',
                 children := children st @ [Heading 1 [] (Some content)]\<rparr>
            else st\<lparr>paragraphLines := [line], linkReferences := refs'\<rparr>))"

definition listCanInterrupt :: "jsstring list \<Rightarrow> jsstring \<Rightarrow> ListMarker \<Rightarrow> bool" where
  "listCanInterrupt paragraphLines' line m =
     (paragraphLines' = [] \<or>
      ((markerType m = bullet \<or> start m = Some 1) \<and>
       trim (drop (indent m + length (marker m) + padding m) line) \<noteq> []))"

text \<open>
  The last two branches of the loop body: an HTML block, or one more line of the
  paragraph.
\<close>

definition htmlOrParagraph ::
  "lowercase \<Rightarrow> entities \<Rightarrow> jsstring \<Rightarrow> 'a BlockState_scheme \<Rightarrow> 'a BlockState_scheme" where
  "htmlOrParagraph lc E line st =
     (case getHtmlBlockType line (paragraphLines st = []) of
        Some htmlType \<Rightarrow> htmlBlockBranch lc E htmlType line st
      | None \<Rightarrow>
          advance (st\<lparr>paragraphLines :=
                        paragraphLines st @ [removeIndent line (min (getIndent line) 3)]\<rparr>))"

text \<open>
  The loop body of \<open>parseBlocks\<close> from the ATX heading on, which the two parsers share
  word for word but for the class of the nested parser and the tables it merges.
\<close>

definition headingAndLaterBranches ::
  "subparser \<Rightarrow> (SubResult \<Rightarrow> 'a BlockState_scheme \<Rightarrow> 'a BlockState_scheme) \<Rightarrow>
   lowercase \<Rightarrow> entities \<Rightarrow> jsstring \<Rightarrow> 'a BlockState_scheme \<Rightarrow> 'a BlockState_scheme option" where
  "headingAndLaterBranches sub merge lc E line st =
     (case parseAtxHeading line of
        Some (level, content) \<Rightarrow>
          (let st1 = finishParagraph lc E st
           in Some (advance (st1\<lparr>children := children st1 @ [Heading level [] (Some content)]\<rparr>)))
      | None \<Rightarrow>
          if paragraphLines st \<noteq> [] \<and> isSetextUnderlineOf EQUALS line
          then Some (setextEqualsBranch lc E line st)
          else
            (case parseFenceOpen line of
               Some fence \<Rightarrow> Some (fencedCodeBranch lc E fence st)
             | None \<Rightarrow>
                 if paragraphLines st = [] \<and> 4 \<le> getIndent line
                 then Some (indentedCodeBranch line st)
                 else if isBlockquoteStart line
                 then blockquoteBranch sub merge (finishParagraph lc E st)
                 else
                   (case parseListMarker line of
                      Some listMarker \<Rightarrow>
                        if listCanInterrupt (paragraphLines st) line listMarker
                        then parseList sub merge listMarker (finishParagraph lc E st)
                        else Some (htmlOrParagraph lc E line st)
                    | None \<Rightarrow> Some (htmlOrParagraph lc E line st))))"

text \<open>
  A line that starts with \<open>LAZY_PREFIX\<close> continues the paragraph.
\<close>

definition lazyLineBranch :: "jsstring \<Rightarrow> 'a BlockState_scheme \<Rightarrow> 'a BlockState_scheme" where
  "lazyLineBranch line st =
     (let raw = drop 1 line
      in advance (st\<lparr>paragraphLines :=
                       paragraphLines st @ [removeIndent raw (min (getIndent raw) 3)]\<rparr>))"

text \<open>
  The thematic break branch of \<open>BlockParser.parseBlocks\<close> (lines 169 to 198): with an open
  paragraph and a line of \<open>-\<close> it is a setext heading of level 2, or a thematic break when
  only link reference definitions were in the paragraph.
\<close>

definition thematicBreakBranch ::
  "lowercase \<Rightarrow> entities \<Rightarrow> jsstring \<Rightarrow> BlockState \<Rightarrow> BlockState" where
  "thematicBreakBranch lc E line st =
     (if paragraphLines st \<noteq> [] \<and> isSetextUnderlineOf MINUS line then
        (let level = the (getSetextLevel line);
             (content, refs', n) = stripLinkReferences lc E (paragraphLines st) (linkReferences st)
         in advance
              (st\<lparr>paragraphLines := [], linkReferences := refs',
                  children := children st @
                    [if content \<noteq> [] then Heading level [] (Some content) else ThematicBreak]\<rparr>))
      else
        (let st1 = finishParagraph lc E st
         in advance (st1\<lparr>children := children st1 @ [ThematicBreak]\<rparr>)))"

text \<open>
  One turn of the loop of \<open>BlockParser.parseBlocks\<close> on a state with a current line;
  \<open>None\<close> when a nested parser gave no result.
\<close>

definition blockStep :: "subparser \<Rightarrow> lowercase \<Rightarrow> entities \<Rightarrow> BlockState \<Rightarrow> BlockState option" where
  "blockStep sub lc E st =
     (case remaining st of
        [] \<Rightarrow> Some st
      | line # rest \<Rightarrow>
          if startsWith line [NUL] then Some (lazyLineBranch line st)
          else if trim line = [] then Some (advance (finishParagraph lc E st))
          else if isThematicBreak line then Some (thematicBreakBranch lc E line st)
          else headingAndLaterBranches sub mergeSubResult lc E line st)"

text \<open>
  The loop of \<open>parseBlocks\<close> and the \<open>finishParagraph()\<close> behind it.  The first argument
  bounds the number of turns.
\<close>

fun parseBlocks_loop ::
  "nat \<Rightarrow> ('s \<Rightarrow> 's option) \<Rightarrow> ('s \<Rightarrow> jsstring list) \<Rightarrow> 's \<Rightarrow> 's option" where
  "parseBlocks_loop 0 step lines st = (if lines st = [] then Some st else None)"
| "parseBlocks_loop (Suc k) step lines st =
     (if lines st = [] then Some st
      else case step st of None \<Rightarrow> None | Some st' \<Rightarrow> parseBlocks_loop k step lines st')"

text \<open>
  \<open>BlockParser.parse(input)\<close>.  A nested parser runs with one unit of fuel less; the loop
  takes at most one turn for each line.
\<close>

fun blockParse :: "nat \<Rightarrow> lowercase \<Rightarrow> entities \<Rightarrow> jsstring \<Rightarrow> SubResult option" where
  "blockParse 0 lc E input = None"
| "blockParse (Suc fuel) lc E input =
     (let lines = splitLines (normalizeLineEndings input);
          st0 = \<lparr>remaining = lines, paragraphLines = [], children = [],
                 linkReferences = Map.empty\<rparr>
      in case parseBlocks_loop (length lines) (blockStep (blockParse fuel lc E) lc E) remaining st0 of
           None \<Rightarrow> None
         | Some st \<Rightarrow>
             (let st' = finishParagraph lc E st
              in Some \<lparr>subChildren = children st', subLinkReferences = linkReferences st',
                        subFootnoteDefinitions = Map.empty\<rparr>))"

section \<open>The GFM block parser (gfm/block-parser.ts)\<close>

text \<open>
  The extensions the parser was constructed with.  A nested parser is constructed without
  argument: all three are on.
\<close>

record Extensions =
  enableTables :: bool
  enableTaskLists :: bool
  enableFootnotes :: bool

definition allExtensions :: Extensions where
  "allExtensions = \<lparr>enableTables = True, enableTaskLists = True, enableFootnotes = True\<rparr>"

definition mergeGfmSubResult :: "SubResult \<Rightarrow> GFMBlockState \<Rightarrow> GFMBlockState" where
  "mergeGfmSubResult r st =
     st\<lparr>linkReferences := mergeFirstWins (linkReferences st) (subLinkReferences r),
        footnoteDefinitions := mergeFirstWins (footnoteDefinitions st) (subFootnoteDefinitions r)\<rparr>"

text \<open>
  The test of the footnote branch (lines 151 to 158) on the line without its first
  spaces: a footnote label with a colon behind it.
\<close>

definition footnoteStart :: "lowercase \<Rightarrow> jsstring \<Rightarrow> FootnoteLabelMatch option" where
  "footnoteStart lc trimmed =
     (case parseFootnoteLabel lc trimmed 0 of
        None \<Rightarrow> None
      | Some m \<Rightarrow> if startsWith (drop (fnLength m) trimmed) [COLON] then Some m else None)"

text \<open>The loop of \<open>parseFootnoteDefinition\<close> behind the first line.\<close>

fun footnoteLines :: "jsstring list \<Rightarrow> jsstring list \<times> jsstring list" where
  "footnoteLines [] = ([], [])"
| "footnoteLines (line # rest) =
     (if trim line = [] then
        (case dropWhile (\<lambda>l. trim l = []) rest of
           [] \<Rightarrow> ([], line # rest)
         | next # _ \<Rightarrow>
             if 4 \<le> getIndent next then
               (let (contentLines, rest') = footnoteLines rest in ([] # contentLines, rest'))
             else ([], line # rest))
      else if 4 \<le> getIndent line then
        (let (contentLines, rest') = footnoteLines rest
         in (removeIndent line 4 # contentLines, rest'))
      else ([], line # rest))"

definition parseFootnoteDefinition ::
  "subparser \<Rightarrow> jsstring \<Rightarrow> jsstring \<Rightarrow> jsstring \<Rightarrow> nat \<Rightarrow> GFMBlockState \<Rightarrow> GFMBlockState option" where
  "parseFootnoteDefinition sub label' key trimmedLine labelLength st =
     (if key = [] then Some (advance st)
      else
        (let afterColon = drop (labelLength + 1) trimmedLine;
             firstContent = dropWhile isIndentChar afterColon;
             (more, rest') = footnoteLines (drop 1 (remaining st));
             contentLines = (if firstContent \<noteq> [] then [firstContent] else []) @ more
         in case sub (joinLines contentLines) of
              None \<Rightarrow> None
            | Some r \<Rightarrow>
                Some (st\<lparr>remaining := rest',
                         linkReferences :=
                           mergeFirstWins (linkReferences st) (subLinkReferences r),
                         footnoteDefinitions :=
                           (if footnoteDefinitions st key = None
                            then (footnoteDefinitions st)
                                   (key \<mapsto> \<lparr>footnoteLabel = label', blocks = subChildren r\<rparr>)
                            else footnoteDefinitions st)\<rparr>)))"

text \<open>
  The setext branch of \<open>GFMBlockParser.parseBlocks\<close> (lines 191 to 218): \<open>Some\<close> of the next
  state when the branch is taken.
\<close>

definition gfmSetextBranch ::
  "lowercase \<Rightarrow> entities \<Rightarrow> jsstring \<Rightarrow> GFMBlockState \<Rightarrow> GFMBlockState option" where
  "gfmSetextBranch lc E line st =
     (if paragraphLines st \<noteq> [] then
        (case getSetextLevel line of
           None \<Rightarrow> None
         | Some setextLevel \<Rightarrow>
             (let (content, refs', n) =
                    stripLinkReferences lc E (paragraphLines st) (linkReferences st)
              in Some (advance
                   (if content \<noteq> [] then
                      st\<lparr>paragraphLines := [], linkReferences := refs',
                         children := children st @ [Heading setextLevel [] (Some content)]\<rparr>
                    else if isThematicBreak line then
                      st\<lparr>paragraphLines := [], linkReferences := refs',
                         children := children st @ [ThematicBreak]\<rparr>
                    else st\<lparr>paragraphLines := [line], linkReferences := refs'\<rparr>))))
      else None)"

text \<open>
  One turn of the loop of \<open>GFMBlockParser.parseBlocks\<close> on a state with a current line.
\<close>

definition gfmBlockStep ::
  "subparser \<Rightarrow> lowercase \<Rightarrow> entities \<Rightarrow> Extensions \<Rightarrow> GFMBlockState \<Rightarrow> GFMBlockState option" where
  "gfmBlockStep sub lc E exts st =
     (case remaining st of
        [] \<Rightarrow> Some st
      | line # rest \<Rightarrow>
          if startsWith line [NUL] then Some (lazyLineBranch line st)
          else if trim line = [] then Some (advance (finishParagraph lc E st))
          else
            (case (if enableFootnotes exts then footnoteStart lc (stripLeadingSpaces3 line)
                   else None) of
               Some m \<Rightarrow>
                 parseFootnoteDefinition sub (fnLabel m) (normalized m) (stripLeadingSpaces3 line)
                   (fnLength m) (finishParagraph lc E st)
             | None \<Rightarrow>
                 (case tableBranch lc E (enableTables exts) st line of
                    Some st' \<Rightarrow> Some st'
                  | None \<Rightarrow>
                      (case gfmSetextBranch lc E line st of
                         Some st' \<Rightarrow> Some st'
                       | None \<Rightarrow>
                           if isThematicBreak line then
                             (let st1 = finishParagraph lc E st
                              in Some (advance (st1\<lparr>children := children st1 @ [ThematicBreak]\<rparr>)))
                           else headingAndLaterBranches sub mergeGfmSubResult lc E line st))))"

text \<open>
  \<open>GFMBlockParser.parse(input)\<close> for a parser constructed with the extensions \<open>exts\<close>.
\<close>

fun gfmBlockParse :: "nat \<Rightarrow> lowercase \<Rightarrow> entities \<Rightarrow> Extensions \<Rightarrow> jsstring \<Rightarrow> SubResult option" where
  "gfmBlockParse 0 lc E exts input = None"
| "gfmBlockParse (Suc fuel) lc E exts input =
     (let lines = splitLines (normalizeLineEndings input);
          st0 = \<lparr>remaining = lines, paragraphLines = [], children = [],
                 linkReferences = Map.empty, footnoteDefinitions = Map.empty\<rparr>
      in case parseBlocks_loop (length lines)
                (gfmBlockStep (gfmBlockParse fuel lc E allExtensions) lc E exts) remaining st0 of
           None \<Rightarrow> None
         | Some st \<Rightarrow>
             (let st' = finishParagraph lc E st
              in Some \<lparr>subChildren = (if enableTaskLists exts then processTaskLists (children st')
                                       else children st'),
                        subLinkReferences = linkReferences st',
                        subFootnoteDefinitions = footnoteDefinitions st'\<rparr>))"

section \<open>A paragraph of link reference definitions before an underline\<close>

text \<open>
  The situation of a turn of \<open>parseBlocks\<close> in which the open paragraph holds link
  reference definitions only, and the current line \<open>line\<close> is a setext underline of \<open>-\<close>
  that is a thematic break as well: the paragraph is not empty, and nothing is left of
  its text once the leading definitions are stripped and the rest is trimmed.
  \<open>storedDefinitions\<close> is the side table with those definitions stored.
\<close>

definition definitionsThenUnderline ::
  "lowercase \<Rightarrow> entities \<Rightarrow> 'a BlockState_scheme \<Rightarrow> jsstring \<Rightarrow> bool" where
  "definitionsThenUnderline lc E st line =
     (paragraphLines st \<noteq> [] \<and> isThematicBreak line \<and> isSetextUnderlineOf MINUS line \<and>
      fst (stripLinkReferences lc E (paragraphLines st) (linkReferences st)) = [])"

definition storedDefinitions :: "lowercase \<Rightarrow> entities \<Rightarrow> 'a BlockState_scheme \<Rightarrow> linkReferences" where
  "storedDefinitions lc E st =
     fst (snd (stripLinkReferences lc E (paragraphLines st) (linkReferences st)))"

section \<open>The inline phase over the blocks (index.ts)\<close>

text \<open>
  \<open>MarkdownParser.processInlines\<close>: the raw content of every paragraph and heading that
  has one is handed to the inline parser, here the function \<open>inlineParse\<close>, and the
  property \<open>rawContent\<close> is deleted; blockquotes, lists and list items are walked.
\<close>

function processBlock :: "(jsstring \<Rightarrow> InlineNode list) \<Rightarrow> BlockNode \<Rightarrow> BlockNode" where
  "processBlock inlineParse (Paragraph cs raw) =
     (case raw of
        None \<Rightarrow> Paragraph cs raw
      | Some rawContent \<Rightarrow>
          if rawContent \<noteq> [] then Paragraph (inlineParse rawContent) None else Paragraph cs raw)"
| "processBlock inlineParse (Heading level cs raw) =
     (case raw of
        None \<Rightarrow> Heading level cs raw
      | Some rawContent \<Rightarrow>
          if rawContent \<noteq> [] then Heading level (inlineParse rawContent) None
          else Heading level cs raw)"
| "processBlock inlineParse (Blockquote cs) = Blockquote (map (processBlock inlineParse) cs)"
| "processBlock inlineParse (List t s tg d b items) =
     List t s tg d b
       (map (\<lambda>item. withItemChildren item (map (processBlock inlineParse) (itemChildren item)))
          items)"
| "processBlock inlineParse (ListItem cs c) = ListItem (map (processBlock inlineParse) cs) c"
| "processBlock inlineParse ThematicBreak = ThematicBreak"
| "processBlock inlineParse (CodeBlock i l f) = CodeBlock i l f"
| "processBlock inlineParse (HtmlBlock l) = HtmlBlock l"
| "processBlock inlineParse (Table t) = Table t"
  by pat_completeness auto
termination
proof (relation "measure (\<lambda>(inlineParse, b). size b)")
  show "wf (measure (\<lambda>(inlineParse :: jsstring \<Rightarrow> InlineNode list, b :: BlockNode). size b))"
    by simp
next
  fix inlineParse :: "jsstring \<Rightarrow> InlineNode list" and cs :: "BlockNode list" and x :: BlockNode
  assume "x \<in> set cs"
  then have "size x \<le> size_list size cs" by (simp add: size_list_estimation')
  then show "((inlineParse, x), (inlineParse, Blockquote cs)) \<in> measure (\<lambda>(inlineParse, b). size b)"
    by simp
next
  fix inlineParse :: "jsstring \<Rightarrow> InlineNode list" and t s tg d b
    and items :: "BlockNode list" and item x :: BlockNode
  assume a: "item \<in> set items" "x \<in> set (itemChildren item)"
  have "size x \<le> size_list size (itemChildren item)"
    using a(2) by (simp add: size_list_estimation')
  also have "\<dots> < Suc (size item)" by (rule size_itemChildren)
  also have "\<dots> \<le> Suc (size_list size items)"
    using a(1) by (simp add: size_list_estimation')
  finally show "((inlineParse, x), (inlineParse, List t s tg d b items))
      \<in> measure (\<lambda>(inlineParse, b). size b)" by simp
next
  fix inlineParse :: "jsstring \<Rightarrow> InlineNode list" and cs :: "BlockNode list" and c
    and x :: BlockNode
  assume "x \<in> set cs"
  then have "size x \<le> size_list size cs" by (simp add: size_list_estimation')
  then show "((inlineParse, x), (inlineParse, ListItem cs c)) \<in> measure (\<lambda>(inlineParse, b). size b)"
    by simp
qed

text \<open>
  \<open>MarkdownParser.parse(input)\<close>: the children of the document.
\<close>

definition parseDocument ::
  "nat \<Rightarrow> lowercase \<Rightarrow> entities \<Rightarrow> (linkReferences \<Rightarrow> jsstring \<Rightarrow> InlineNode list) \<Rightarrow> jsstring \<Rightarrow>
   BlockNode list option" where
  "parseDocument fuel lc E inlineParser input =
     (case blockParse fuel lc E input of
        None \<Rightarrow> None
      | Some r \<Rightarrow> Some (map (processBlock (inlineParser (subLinkReferences r))) (subChildren r)))"

section \<open>The HTML renderer, block level (renderer.ts)\<close>

text \<open>
  \<open>escapeXml\<close>: the four replacements run one after the other, \<open>&\<close> first, so that no
  character a replacement puts in is replaced again: every character is mapped on its own.
\<close>

definition escapeXml :: "jsstring \<Rightarrow> jsstring" where
  "escapeXml str =
     concat (map (\<lambda>c. if c = AMP then js ''&amp;''
                       else if c = LT then js ''&lt;''
                       else if c = GT then js ''&gt;''
                       else if c = DQUOTE then js ''&quot;''
                       else [c]) str)"

definition escapeHtml :: "jsstring \<Rightarrow> jsstring" where
  "escapeHtml str = escapeXml str"

text \<open>A number in a template literal: its decimal digits.\<close>

function numberToString :: "nat \<Rightarrow> jsstring" where
  "numberToString n =
     (if n < 10 then [of_nat (48 + n)]
      else numberToString (n div 10) @ [of_nat (48 + n mod 10)])"
  by pat_completeness auto
termination
  by (relation "measure id") auto

declare numberToString.simps [simp del]

text \<open>
  \<open>renderListItem(node, tight)\<close> from the children of the item and their rendering.
\<close>

definition listItemHtml :: "bool \<Rightarrow> BlockNode list \<Rightarrow> jsstring \<Rightarrow> jsstring" where
  "listItemHtml tight children' content =
     (if children' = [] then js ''<li></li>''
      else if tight \<and> length children' = 1 \<and> isParagraph (hd children')
      then js ''<li>'' @ content @ js ''</li>''
      else if content \<noteq> [] then js ''<li>'' @ [LF] @ content @ [LF] @ js ''</li>''
      else js ''<li></li>'')"

text \<open>\<^verbatim>\<open>node.literal.replace(/\n$/, '')\<close>.\<close>

definition dropFinalNewline :: "jsstring \<Rightarrow> jsstring" where
  "dropFinalNewline s = (if s \<noteq> [] \<and> last s = LF then butlast s else s)"

text \<open>
  \<open>renderBlock(block, tight)\<close>.  The rendering of inline content, \<open>renderInlines\<close>, is the
  argument of that name; \<open>safe\<close> is the option.  \<open>renderBlocks\<close> joins the blocks with
  newlines.  The children of a list are list items.
\<close>

function renderBlock ::
  "(InlineNode list \<Rightarrow> jsstring) \<Rightarrow> bool \<Rightarrow> BlockNode \<Rightarrow> bool \<Rightarrow> jsstring" where
  "renderBlock renderInlines safe (Paragraph cs raw) tight =
     (if tight then renderInlines cs else js ''<p>'' @ renderInlines cs @ js ''</p>'')"
| "renderBlock renderInlines safe (Heading level cs raw) tight =
     js ''<h'' @ numberToString level @ js ''>'' @ renderInlines cs @
     js ''</h'' @ numberToString level @ js ''>''"
| "renderBlock renderInlines safe ThematicBreak tight = js ''<hr />''"
| "renderBlock renderInlines safe (CodeBlock info' literal' fenced) tight =
     (if info' \<noteq> [] then
        js ''<pre><code class='' @ [DQUOTE] @ js ''language-'' @
        escapeHtml (takeWhile (\<lambda>c. \<not> isJsWhitespace c) info') @ [DQUOTE] @ js ''>'' @
        escapeHtml literal' @ js ''</code></pre>''
      else js ''<pre><code>'' @ escapeHtml literal' @ js ''</code></pre>'')"
| "renderBlock renderInlines safe (Blockquote cs) tight =
     (let content = joinLines (map (\<lambda>c. renderBlock renderInlines safe c False) cs)
      in if content \<noteq> [] then js ''<blockquote>'' @ [LF] @ content @ [LF] @ js ''</blockquote>''
         else js ''<blockquote>'' @ [LF] @ js ''</blockquote>'')"
| "renderBlock renderInlines safe (List t s tg d b items) tight =
     (let tag = (if t = bullet then js ''ul'' else js ''ol'');
          startAttr = (if t = ordered \<and> s \<noteq> 1
                       then js '' start='' @ [DQUOTE] @ numberToString s @ [DQUOTE] else []);
          items' = joinLines
                     (map (\<lambda>item.
                             listItemHtml tg (itemChildren item)
                               (joinLines (map (\<lambda>c. renderBlock renderInlines safe c tg)
                                             (itemChildren item))))
                        items)
      in js ''<'' @ tag @ startAttr @ js ''>'' @ [LF] @ items' @ [LF] @ js ''</'' @ tag @ js ''>'')"
| "renderBlock renderInlines safe (ListItem cs c) tight =
     listItemHtml False cs (joinLines (map (\<lambda>c. renderBlock renderInlines safe c False) cs))"
| "renderBlock renderInlines safe (HtmlBlock literal') tight =
     (if safe then js ''<!-- raw HTML omitted -->'' else dropFinalNewline literal')"
| "renderBlock renderInlines safe (Table t) tight = []"
  by pat_completeness auto
termination
proof (relation "measure (\<lambda>(renderInlines, safe, b, tight). size b)")
  show "wf (measure (\<lambda>(renderInlines :: InlineNode list \<Rightarrow> jsstring, safe :: bool,
                        b :: BlockNode, tight :: bool). size b))"
    by simp
next
  fix renderInlines :: "InlineNode list \<Rightarrow> jsstring" and safe tight :: bool
    and cs :: "BlockNode list" and x :: BlockNode
  assume "x \<in> set cs"
  then have "size x \<le> size_list size cs" by (simp add: size_list_estimation')
  then show "((renderInlines, safe, x, False), (renderInlines, safe, Blockquote cs, tight))
      \<in> measure (\<lambda>(renderInlines, safe, b, tight). size b)"
    by simp
next
  fix renderInlines :: "InlineNode list \<Rightarrow> jsstring" and safe tight tg :: bool and t s d b
    and items :: "BlockNode list" and item x :: BlockNode
  assume a: "item \<in> set items" "x \<in> set (itemChildren item)"
  have "size x \<le> size_list size (itemChildren item)"
    using a(2) by (simp add: size_list_estimation')
  also have "\<dots> < Suc (size item)" by (rule size_itemChildren)
  also have "\<dots> \<le> Suc (size_list size items)"
    using a(1) by (simp add: size_list_estimation')
  finally show "((renderInlines, safe, x, tg), (renderInlines, safe, List t s tg d b items, tight))
      \<in> measure (\<lambda>(renderInlines, safe, b, tight). size b)" by simp
next
  fix renderInlines :: "InlineNode list \<Rightarrow> jsstring" and safe tight :: bool
    and cs :: "BlockNode list" and c and x :: BlockNode
  assume "x \<in> set cs"
  then have "size x \<le> size_list size cs" by (simp add: size_list_estimation')
  then show "((renderInlines, safe, x, False), (renderInlines, safe, ListItem cs c, tight))
      \<in> measure (\<lambda>(renderInlines, safe, b, tight). size b)"
    by simp
qed

text \<open>\<open>HtmlRenderer.render(document)\<close> on the children of the document.\<close>

definition render :: "(InlineNode list \<Rightarrow> jsstring) \<Rightarrow> bool \<Rightarrow> BlockNode list \<Rightarrow> jsstring" where
  "render renderInlines safe children' =
     (let content = joinLines (map (\<lambda>b. renderBlock renderInlines safe b False) children')
      in if content \<noteq> [] then content @ [LF] else [])"

text \<open>\<open>markdown(input, options)\<close>: parse, then render.\<close>

definition markdown ::
  "nat \<Rightarrow> lowercase \<Rightarrow> entities \<Rightarrow> (linkReferences \<Rightarrow> jsstring \<Rightarrow> InlineNode list) \<Rightarrow>
   (InlineNode list \<Rightarrow> jsstring) \<Rightarrow> bool \<Rightarrow> jsstring \<Rightarrow> jsstring option" where
  "markdown fuel lc E inlineParser renderInlines safe input =
     map_option (render renderInlines safe) (parseDocument fuel lc E inlineParser input)"

chapter \<open>Properties\<close>

section \<open>Properties of removeIndent\<close>

lemma getIndent_loop_ge: "ind \<le> getIndent_loop cs ind"
proof (induction cs arbitrary: ind)
  case Nil
  show ?case by simp
next
  case (Cons c cs)
  have a: "ind + 1 \<le> getIndent_loop cs (ind + 1)" by (rule Cons.IH)
  have b: "ind + (4 - ind mod 4) \<le> getIndent_loop cs (ind + (4 - ind mod 4))"
    by (rule Cons.IH)
  from a b show ?case by auto
qed

lemma expandRest_loop_no_tab: "TAB \<notin> set (expandRest_loop cs column)"
  by (induction cs arbitrary: column) auto

lemma isIndentChar_simps [simp]: "isIndentChar SP" "isIndentChar TAB"
  by (simp_all add: isIndentChar_def)

lemma removeIndent_loop_cases:
  "removed \<le> ind \<Longrightarrow>
   \<exists>k. k \<le> length cs \<and> list_all isIndentChar (take k cs) \<and>
     ((getIndent_loop (take k cs) removed = min ind (getIndent_loop cs removed) \<and>
       removeIndent_loop cs removed ind = drop k cs)
      \<or>
      (k < length cs \<and> cs ! k = TAB \<and>
       getIndent_loop (take k cs) removed < ind \<and>
       ind < getIndent_loop (take (Suc k) cs) removed \<and>
       removeIndent_loop cs removed ind =
         replicate (getIndent_loop (take (Suc k) cs) removed - ind) SP
         @ expandRestOfLine cs (Suc k) (getIndent_loop (take (Suc k) cs) removed)))"
proof (induction cs arbitrary: removed)
  case Nil
  then show ?case by simp
next
  case (Cons c cs)
  show ?case
  proof (cases "removed < ind")
    case False
    with Cons.prems have eq: "removed = ind" by simp
    have "ind \<le> getIndent_loop (c # cs) ind" by (rule getIndent_loop_ge)
    then have "getIndent_loop (take 0 (c # cs)) removed = min ind (getIndent_loop (c # cs) removed)
      \<and> removeIndent_loop (c # cs) removed ind = drop 0 (c # cs)"
      using eq by (simp add: min_def)
    then show ?thesis by (intro exI[of _ 0]) simp
  next
    case lt: True
    consider (sp) "c = SP" | (fit) "c = TAB" "removed + (4 - removed mod 4) \<le> ind"
      | (straddle) "c = TAB" "ind < removed + (4 - removed mod 4)"
      | (other) "c \<noteq> SP" "c \<noteq> TAB"
      by fastforce
    then show ?thesis
    proof cases
      case sp
      from lt have "removed + 1 \<le> ind" by simp
      from Cons.IH[OF this] obtain k where k: "k \<le> length cs" "list_all isIndentChar (take k cs)"
        "(getIndent_loop (take k cs) (removed + 1) = min ind (getIndent_loop cs (removed + 1)) \<and>
           removeIndent_loop cs (removed + 1) ind = drop k cs)
         \<or>
         (k < length cs \<and> cs ! k = TAB \<and>
          getIndent_loop (take k cs) (removed + 1) < ind \<and>
          ind < getIndent_loop (take (Suc k) cs) (removed + 1) \<and>
          removeIndent_loop cs (removed + 1) ind =
            replicate (getIndent_loop (take (Suc k) cs) (removed + 1) - ind) SP
            @ expandRestOfLine cs (Suc k) (getIndent_loop (take (Suc k) cs) (removed + 1)))"
        by blast
      show ?thesis
        using k sp lt
        by (intro exI[of _ "Suc k"]) (simp add: expandRestOfLine_def)
    next
      case fit
      from Cons.IH[OF fit(2)] obtain k where k: "k \<le> length cs" "list_all isIndentChar (take k cs)"
        "(getIndent_loop (take k cs) (removed + (4 - removed mod 4))
            = min ind (getIndent_loop cs (removed + (4 - removed mod 4))) \<and>
           removeIndent_loop cs (removed + (4 - removed mod 4)) ind = drop k cs)
         \<or>
         (k < length cs \<and> cs ! k = TAB \<and>
          getIndent_loop (take k cs) (removed + (4 - removed mod 4)) < ind \<and>
          ind < getIndent_loop (take (Suc k) cs) (removed + (4 - removed mod 4)) \<and>
          removeIndent_loop cs (removed + (4 - removed mod 4)) ind =
            replicate (getIndent_loop (take (Suc k) cs) (removed + (4 - removed mod 4)) - ind) SP
            @ expandRestOfLine cs (Suc k)
                (getIndent_loop (take (Suc k) cs) (removed + (4 - removed mod 4))))"
        by blast
      show ?thesis
        using k fit lt
        by (intro exI[of _ "Suc k"]) (simp add: expandRestOfLine_def)
    next
      case straddle
      have w: "(4 - removed mod 4) - (ind - removed) = removed + (4 - removed mod 4) - ind"
        using lt by simp
      have "removeIndent_loop (c # cs) removed ind =
          replicate (removed + (4 - removed mod 4) - ind) SP
          @ expandRestOfLine (c # cs) (Suc 0) (removed + (4 - removed mod 4))"
        using straddle lt w by (simp add: expandRestOfLine_def Let_def)
      then show ?thesis
        using straddle lt
        by (intro exI[of _ 0]) simp
    next
      case other
      show ?thesis
        using other lt
        by (intro exI[of _ 0]) (simp add: min_def)
    qed
  qed
qed


text \<open>
  C1, as amended.  \<open>removeIndent line N\<close> consumes a prefix of \<open>k\<close> spaces and tabs.
  Either no tab straddles column \<open>N\<close>: the prefix is \<open>min N (getIndent line)\<close> columns wide
  (all \<open>N\<close> columns when the line is indented that far, the whole indentation otherwise),
  a tab counting \<open>4 - column mod 4\<close> columns, and the result is the untouched rest of the
  line.  Or the character after the prefix is a tab that starts before column \<open>N\<close> and ends
  after it: the result starts with the columns of that tab beyond \<open>N\<close> as spaces, and the
  rest of the line follows with every tab expanded to its tab stop in the columns of the
  original line, so that no tab character is left in the result.
\<close>

theorem removeIndent_columns:
  "\<exists>k. k \<le> length line \<and> list_all isIndentChar (take k line) \<and>
     ((getIndent (take k line) = min N (getIndent line) \<and>
       removeIndent line N = drop k line)
      \<or>
      (k < length line \<and> line ! k = TAB \<and>
       getIndent (take k line) < N \<and> N < getIndent (take (Suc k) line) \<and>
       removeIndent line N =
         replicate (getIndent (take (Suc k) line) - N) SP
         @ expandRestOfLine line (Suc k) (getIndent (take (Suc k) line)) \<and>
       TAB \<notin> set (removeIndent line N)))"
proof -
  have "(0::nat) \<le> N" by simp
  from removeIndent_loop_cases[OF this, of line]
  obtain k where k: "k \<le> length line" "list_all isIndentChar (take k line)"
    "(getIndent_loop (take k line) 0 = min N (getIndent_loop line 0) \<and>
       removeIndent_loop line 0 N = drop k line)
      \<or>
      (k < length line \<and> line ! k = TAB \<and>
       getIndent_loop (take k line) 0 < N \<and>
       N < getIndent_loop (take (Suc k) line) 0 \<and>
       removeIndent_loop line 0 N =
         replicate (getIndent_loop (take (Suc k) line) 0 - N) SP
         @ expandRestOfLine line (Suc k) (getIndent_loop (take (Suc k) line) 0))"
    by blast
  from k(3) show ?thesis
  proof
    assume "getIndent_loop (take k line) 0 = min N (getIndent_loop line 0) \<and>
       removeIndent_loop line 0 N = drop k line"
    with k(1,2) show ?thesis
      unfolding getIndent_def removeIndent_def by blast
  next
    assume a: "k < length line \<and> line ! k = TAB \<and>
       getIndent_loop (take k line) 0 < N \<and>
       N < getIndent_loop (take (Suc k) line) 0 \<and>
       removeIndent_loop line 0 N =
         replicate (getIndent_loop (take (Suc k) line) 0 - N) SP
         @ expandRestOfLine line (Suc k) (getIndent_loop (take (Suc k) line) 0)"
    then have "TAB \<notin> set (removeIndent_loop line 0 N)"
      by (simp add: expandRestOfLine_def expandRest_loop_no_tab)
    with a k(1,2) show ?thesis
      unfolding getIndent_def removeIndent_def by blast
  qed
qed

text \<open>
  C1 as stated fails: in \<open>removeIndent("\t\tx", 2)\<close> the first tab straddles column 2,
  and the second tab comes back as four spaces, not as a tab character.
\<close>

theorem removeIndent_later_tab_counterexample:
  "removeIndent [TAB, TAB, of_char CHR ''x''] 2 = replicate 6 SP @ js ''x'' \<and>
   removeIndent [TAB, TAB, of_char CHR ''x''] 2 \<noteq> [SP, SP, TAB, of_char CHR ''x'']"
  by code_simp

section \<open>Entities\<close>




lemma semi_classes [simp]: "\<not> isDigit SEMI" "\<not> isHexDigit SEMI" "\<not> isAlnum SEMI" "\<not> isAlpha SEMI"
  by (simp_all add: isDigit_def isHexDigit_def isAlnum_def isAlpha_def)

lemma hash_not_alpha [simp]: "\<not> isAlpha HASH"
  by (simp add: isAlpha_def)
















section \<open>Link reference definitions\<close>




lemma trim_empty_iff: "trim s = [] \<longleftrightarrow> (\<forall>c \<in> set s. isJsWhitespace c)"
proof
  assume "trim s = []"
  then have "dropWhile isJsWhitespace (rev (dropWhile isJsWhitespace s)) = []"
    by (simp add: trim_def)
  then have a: "\<forall>c \<in> set (dropWhile isJsWhitespace s). isJsWhitespace c"
    by (simp add: dropWhile_eq_Nil_conv)
  show "\<forall>c \<in> set s. isJsWhitespace c"
  proof (cases "dropWhile isJsWhitespace s")
    case Nil
    then show ?thesis by (simp add: dropWhile_eq_Nil_conv)
  next
    case (Cons x xs)
    then have "\<not> isJsWhitespace x" using hd_dropWhile[of isJsWhitespace s] by auto
    with a Cons show ?thesis by auto
  qed
next
  assume "\<forall>c \<in> set s. isJsWhitespace c"
  then have d: "dropWhile isJsWhitespace s = []" by (simp add: dropWhile_eq_Nil_conv)
  show "trim s = []" by (simp only: trim_def d rev.simps dropWhile.simps)
qed












lemmas string_eval = js_def startsWith_def endsWith_def trim_def isJsWhitespace_def isLineTerminator_def
  isDigit_def isHexDigit_def isAlpha_def isAlnum_def isAsciiPunctuation_def isIndentChar_def

lemmas linkref_eval = parseLinkReferenceDefinition_def linkRefHead_def linkRefTitle_def
  tryMatchTitle_def lineEndLength_def matchTitle_def matchDelimited_def linkDestination_def
  matchBareDestination_def isBareDestinationChar_def matchAngleDestination_def
  beforeDestLength_def matchLinkLabel_def normalizeLabel_def replaceSharpS_def isLabelSpace_def
  asciiLowerCase_def entityCapture_def entityReplacement_def

lemma labelRun_numeral:
  "labelRun (numeral k) [] = []"
  "labelRun (numeral k) [c] = (if c = BACKSLASH \<or> c = LBRACKET \<or> c = RBRACKET then [] else [c])"
  "labelRun (numeral k) (c # d # ds) =
     (if c = BACKSLASH then (if isLineTerminator d then [] else c # d # labelRun (pred_numeral k) ds)
      else if c = LBRACKET \<or> c = RBRACKET then []
      else c # labelRun (pred_numeral k) (d # ds))"
  by (simp_all add: numeral_eq_Suc)







section \<open>Tables\<close>











lemmas block_eval = stripLeadingSpaces3_def isThematicBreak_def isSetextUnderlineOf_def
  getSetextLevel_def stripClosingHashes_def parseAtxHeading_def parseFenceOpen_def isFenceClose_def
  startsWithIgnoreCase_def asciiLower_def isTagNameChar_def isAttributeNameStart_def
  isAttributeNameChar_def isUnquotedValueChar_def type1OpenWith_def type1Open_def type6TagName_def
  afterValue_def type7OpenTag_def type7CloseTag_def getHtmlBlockType_def isHtmlBlockClose_def
  isBlockquoteStart_def TYPE_6_TAGS_def

lemmas table_eval = splitTableRow_def isDelimiterCell_def cellAlignment_def parseDelimiterRow_def
  isTableRow_def isTableStart_def createTableCellNode_def parseTableRowCells_def
  createTableRowNode_def








section \<open>Task lists\<close>




section \<open>Extended autolinks\<close>













section \<open>A setext underline behind link reference definitions\<close>

lemma underline_first:
  assumes "isSetextUnderlineOf u line"
  shows "\<exists>r. stripLeadingSpaces3 line = u # r"
proof -
  let ?sp = "takeWhile (\<lambda>c. c = SP) line"
  let ?rest = "dropWhile (\<lambda>c. c = SP) line"
  from assms have le: "length ?sp \<le> 3" and ne: "takeWhile (\<lambda>c. c = u) ?rest \<noteq> []"
    by (simp_all add: isSetextUnderlineOf_def Let_def)
  from ne obtain r where r: "?rest = u # r"
    by (cases ?rest) (auto split: if_splits)
  have "stripLeadingSpaces3 line = drop (length ?sp) line"
    using le by (simp add: stripLeadingSpaces3_def min_def)
  also have "\<dots> = ?rest" by (simp add: dropWhile_eq_drop)
  finally show ?thesis using r by simp
qed

lemma underline_run:
  assumes "isSetextUnderlineOf u line"
  shows "\<exists>r. dropWhile (\<lambda>c. c = SP) line = u # r"
proof -
  from assms have ne: "takeWhile (\<lambda>c. c = u) (dropWhile (\<lambda>c. c = SP) line) \<noteq> []"
    by (simp add: isSetextUnderlineOf_def Let_def)
  then show ?thesis
    by (cases "dropWhile (\<lambda>c. c = SP) line") (auto split: if_splits)
qed

lemma minus_underline_line:
  assumes "isSetextUnderlineOf MINUS line"
  shows "\<not> startsWith line [NUL]" "trim line \<noteq> []" "getSetextLevel line = Some 2"
    "parseFootnoteLabel lc (stripLeadingSpaces3 line) 0 = None"
proof -
  from underline_run[OF assms] obtain r where r: "dropWhile (\<lambda>c. c = SP) line = MINUS # r"
    by blast
  show "\<not> startsWith line [NUL]"
    using r by (cases line) (auto simp: startsWith_def split: if_splits)
  have "MINUS \<in> set (dropWhile (\<lambda>c. c = SP) line)" using r by simp
  then have "MINUS \<in> set line" by (rule set_dropWhileD)
  moreover have "\<not> isJsWhitespace MINUS" by (simp add: isJsWhitespace_def)
  ultimately show "trim line \<noteq> []" unfolding trim_empty_iff by blast
  have "\<not> isSetextUnderlineOf EQUALS line"
    using r by (simp add: isSetextUnderlineOf_def Let_def)
  with assms show "getSetextLevel line = Some 2" by (simp add: getSetextLevel_def)
  from underline_first[OF assms] obtain r' where "stripLeadingSpaces3 line = MINUS # r'"
    by blast
  then show "parseFootnoteLabel lc (stripLeadingSpaces3 line) 0 = None"
    by (simp add: parseFootnoteLabel_def startsWith_def js_def)
qed

lemma definition_example:
  "parseLinkReferenceDefinition asciiLowerCase Map.empty (js ''[foo]: /url'') =
     Some \<lparr>label = js ''foo'', defn = \<lparr>destination = js ''/url'', title = []\<rparr>, consumed = 11\<rparr>"
  "parseLinkReferenceDefinition asciiLowerCase Map.empty (js ''[foo]: /url|'') =
     Some \<lparr>label = js ''foo'', defn = \<lparr>destination = js ''/url|'', title = []\<rparr>, consumed = 12\<rparr>"
  by (simp_all add: linkref_eval string_eval labelRun_numeral)

lemma definition_example_stripped:
  "stripLinkReferences asciiLowerCase Map.empty [js ''[foo]: /url''] Map.empty =
     ([], [js ''foo'' \<mapsto> \<lparr>destination = js ''/url'', title = []\<rparr>], 11)"
  "stripLinkReferences asciiLowerCase Map.empty [js ''[foo]: /url|''] Map.empty =
     ([], [js ''foo'' \<mapsto> \<lparr>destination = js ''/url|'', title = []\<rparr>], 12)"
  unfolding stripLinkReferences_def joinLines.simps
   apply (subst extractLinkReferences.simps)
   apply (simp add: definition_example)
   apply (subst extractLinkReferences.simps)
   apply (simp add: js_def trim_def)
  apply (subst extractLinkReferences.simps)
  apply (simp add: definition_example)
  apply (subst extractLinkReferences.simps)
  apply (simp add: js_def trim_def)
  done

lemma underline_example:
  "isThematicBreak (js ''---'')" "isSetextUnderlineOf MINUS (js ''---'')"
  by (simp_all add: block_eval string_eval)

lemma definition_example_rows:
  "\<not> isTableRow (js ''[foo]: /url'')"
  "isTableRow (js ''[foo]: /url|'')"
  "isTableStart (js ''[foo]: /url|'') (js ''---'') = Some [None]"
  by (simp_all add: table_eval string_eval hasUnescapedPipe.simps)

lemma definition_example_branch:
  "tableBranch asciiLowerCase Map.empty (enableTables allExtensions)
     \<lparr>remaining = [js ''---''], paragraphLines = [js ''[foo]: /url''], children = [],
      linkReferences = Map.empty, footnoteDefinitions = Map.empty\<rparr> (js ''---'') = None"
  by (simp add: tableBranch_def definition_example_rows)

lemma definition_example_table:
  "tableBranch asciiLowerCase Map.empty (enableTables allExtensions)
     \<lparr>remaining = [js ''---''], paragraphLines = [js ''[foo]: /url|''], children = [],
      linkReferences = Map.empty, footnoteDefinitions = Map.empty\<rparr> (js ''---'') =
   Some \<lparr>remaining = [], paragraphLines = [],
         children = [Table \<lparr>alignments = [None],
                            tableChildren =
                              [\<lparr>rowChildren =
                                   [\<lparr>cellChildren = [], align = None, cellIsHeader = True,
                                     cellRawContent = Some (js ''[foo]: /url'')\<rparr>],
                                 rowIsHeader = True\<rparr>]\<rparr>],
         linkReferences = Map.empty, footnoteDefinitions = Map.empty\<rparr>"
  apply (simp add: tableBranch_def definition_example_rows allExtensions_def parseTable_def
      parseTableRowCells_def createTableRowNode_def createTableCellNode_def)
  apply (simp add: splitTableRow_def string_eval)
  done

text \<open>
  C7, as amended.  When the open paragraph holds link reference definitions only and the
  current line is a setext underline of \<open>-\<close> that is a thematic break as well, one turn of
  the loop of the CommonMark block parser stores the definitions, empties the paragraph
  buffer, takes the line and adds a thematic break to the container (no heading, no
  paragraph).  One turn of the loop of the GFM block parser does the same provided its
  table branch, which comes first, does not open a table with the last line of the
  paragraph as header row and the underline as delimiter row.
\<close>

theorem underline_after_definitions:
  assumes "remaining st = line # rest"
    and "definitionsThenUnderline toLowerCase E st line"
    and "remaining g = line # rest'"
    and "definitionsThenUnderline toLowerCase E g line"
    and "tableBranch toLowerCase E (enableTables exts) g line = None"
  shows "blockStep sub toLowerCase E st =
           Some (st\<lparr>remaining := rest, paragraphLines := [],
                    linkReferences := storedDefinitions toLowerCase E st,
                    children := children st @ [ThematicBreak]\<rparr>) \<and>
         gfmBlockStep sub' toLowerCase E exts g =
           Some (g\<lparr>remaining := rest', paragraphLines := [],
                   linkReferences := storedDefinitions toLowerCase E g,
                   children := children g @ [ThematicBreak]\<rparr>)"
proof
  from assms(2) have p: "paragraphLines st \<noteq> []" and t: "isThematicBreak line"
    and u: "isSetextUnderlineOf MINUS line"
    and e: "fst (stripLinkReferences toLowerCase E (paragraphLines st) (linkReferences st)) = []"
    by (simp_all add: definitionsThenUnderline_def)
  note l = minus_underline_line[OF u]
  obtain c r n where s: "stripLinkReferences toLowerCase E (paragraphLines st) (linkReferences st) = (c, r, n)"
    by (cases "stripLinkReferences toLowerCase E (paragraphLines st) (linkReferences st)")
  with e have c: "c = []" by simp
  show "blockStep sub toLowerCase E st =
           Some (st\<lparr>remaining := rest, paragraphLines := [],
                    linkReferences := storedDefinitions toLowerCase E st,
                    children := children st @ [ThematicBreak]\<rparr>)"
    by (simp add: blockStep_def assms(1) l t thematicBreakBranch_def p u s c advance_def
        storedDefinitions_def)
next
  from assms(4) have p: "paragraphLines g \<noteq> []" and t: "isThematicBreak line"
    and u: "isSetextUnderlineOf MINUS line"
    and e: "fst (stripLinkReferences toLowerCase E (paragraphLines g) (linkReferences g)) = []"
    by (simp_all add: definitionsThenUnderline_def)
  note l = minus_underline_line[OF u]
  obtain c r n where s: "stripLinkReferences toLowerCase E (paragraphLines g) (linkReferences g) = (c, r, n)"
    by (cases "stripLinkReferences toLowerCase E (paragraphLines g) (linkReferences g)")
  with e have c: "c = []" by simp
  show "gfmBlockStep sub' toLowerCase E exts g =
           Some (g\<lparr>remaining := rest', paragraphLines := [],
                   linkReferences := storedDefinitions toLowerCase E g,
                   children := children g @ [ThematicBreak]\<rparr>)"
    by (simp add: gfmBlockStep_def assms(3) l footnoteStart_def assms(5) gfmSetextBranch_def
        p t s c advance_def storedDefinitions_def)
qed

theorem underline_after_definitions_witness:
  "blockStep (blockParse 0 asciiLowerCase Map.empty) asciiLowerCase Map.empty
     \<lparr>remaining = [js ''---''], paragraphLines = [js ''[foo]: /url''], children = [],
      linkReferences = Map.empty\<rparr> =
   Some \<lparr>remaining = [], paragraphLines = [], children = [ThematicBreak],
         linkReferences = [js ''foo'' \<mapsto> \<lparr>destination = js ''/url'', title = []\<rparr>]\<rparr> \<and>
   gfmBlockStep (gfmBlockParse 0 asciiLowerCase Map.empty allExtensions) asciiLowerCase Map.empty
     allExtensions
     \<lparr>remaining = [js ''---''], paragraphLines = [js ''[foo]: /url''], children = [],
      linkReferences = Map.empty, footnoteDefinitions = Map.empty\<rparr> =
   Some \<lparr>remaining = [], paragraphLines = [], children = [ThematicBreak],
         linkReferences = [js ''foo'' \<mapsto> \<lparr>destination = js ''/url'', title = []\<rparr>],
         footnoteDefinitions = Map.empty\<rparr>"
  using underline_after_definitions[of
      "\<lparr>remaining = [js ''---''], paragraphLines = [js ''[foo]: /url''], children = [],
        linkReferences = Map.empty\<rparr>" "js ''---''" "[]" asciiLowerCase Map.empty
      "\<lparr>remaining = [js ''---''], paragraphLines = [js ''[foo]: /url''], children = [],
        linkReferences = Map.empty, footnoteDefinitions = Map.empty\<rparr>" "[]" allExtensions
      "blockParse 0 asciiLowerCase Map.empty"
      "gfmBlockParse 0 asciiLowerCase Map.empty allExtensions"]
  by (simp add: definitionsThenUnderline_def storedDefinitions_def underline_example
      definition_example_stripped definition_example_branch)

text \<open>
  C7 as stated fails in the GFM block parser: with the paragraph \<^verbatim>\<open>[foo]: /url|\<close>, which
  is a link reference definition and nothing else, and the line \<^verbatim>\<open>---\<close>, the table branch
  takes the definition for a header row of one cell; the parser adds a table, no thematic
  break, and stores no definition.
\<close>

theorem underline_after_definitions_table_counterexample:
  "definitionsThenUnderline asciiLowerCase Map.empty
     \<lparr>remaining = [js ''---''], paragraphLines = [js ''[foo]: /url|''], children = [],
      linkReferences = Map.empty, footnoteDefinitions = Map.empty\<rparr> (js ''---'') \<and>
   gfmBlockStep (gfmBlockParse 0 asciiLowerCase Map.empty allExtensions) asciiLowerCase Map.empty
     allExtensions
     \<lparr>remaining = [js ''---''], paragraphLines = [js ''[foo]: /url|''], children = [],
      linkReferences = Map.empty, footnoteDefinitions = Map.empty\<rparr> =
   Some \<lparr>remaining = [], paragraphLines = [],
         children = [Table \<lparr>alignments = [None],
                            tableChildren =
                              [\<lparr>rowChildren =
                                   [\<lparr>cellChildren = [], align = None, cellIsHeader = True,
                                     cellRawContent = Some (js ''[foo]: /url'')\<rparr>],
                                 rowIsHeader = True\<rparr>]\<rparr>],
         linkReferences = Map.empty, footnoteDefinitions = Map.empty\<rparr>"
proof -
  have f: "footnoteStart asciiLowerCase (stripLeadingSpaces3 (js ''---'')) = None"
    by (simp add: footnoteStart_def parseFootnoteLabel_def block_eval string_eval)
  have l: "\<not> startsWith (js ''---'') [NUL]" "trim (js ''---'') \<noteq> []"
    by (simp_all add: string_eval)
  show ?thesis
    by (simp add: definitionsThenUnderline_def underline_example definition_example_stripped
        gfmBlockStep_def l f definition_example_table)
qed

section \<open>A trailing blank line behind an unterminated HTML block\<close>

lemma pre_lines:
  "splitLines (normalizeLineEndings (js ''<pre>'' @ [LF])) = [js ''<pre>'', []]"
  "splitLines (normalizeLineEndings (js ''<pre>'' @ [LF, LF])) = [js ''<pre>'', [], []]"
  by (simp_all add: splitLines_def js_def)

lemma pre_line:
  "\<not> startsWith (js ''<pre>'') [NUL]" "trim (js ''<pre>'') \<noteq> []"
  "\<not> isThematicBreak (js ''<pre>'')" "parseAtxHeading (js ''<pre>'') = None"
  "parseFenceOpen (js ''<pre>'') = None" "getIndent (js ''<pre>'') = 0"
  "\<not> isBlockquoteStart (js ''<pre>'')" "parseListMarker (js ''<pre>'') = None"
  "getHtmlBlockType (js ''<pre>'') True = Some 1"
  "\<not> isHtmlBlockClose (js ''<pre>'') (Some 1)" "\<not> isHtmlBlockClose [] (Some 1)"
  "\<not> isHtmlBlockClose (js ''<pre>'') (Some (Suc 0))" "\<not> isHtmlBlockClose [] (Some (Suc 0))"
  by (simp_all add: block_eval string_eval getIndent_def parseListMarker_def)

lemma pre_step:
  assumes "rest = [[]] \<or> rest = [[], []]"
  shows "blockStep sub lc E
     \<lparr>remaining = js ''<pre>'' # rest, paragraphLines = [], children = [],
      linkReferences = Map.empty\<rparr> =
   Some \<lparr>remaining = [], paragraphLines = [],
         children = [HtmlBlock (joinLines (js ''<pre>'' # rest) @ [LF])],
         linkReferences = Map.empty\<rparr>"
  using assms
  by (auto simp add: blockStep_def pre_line headingAndLaterBranches_def htmlOrParagraph_def
      htmlBlockBranch_def finishParagraph_def)

text \<open>
  C2 does not hold of the code.  The input \<^verbatim>\<open><pre>\<close> with a newline behind it ends in a
  newline and opens an HTML block of type 1 that is never closed.  The loop of the HTML
  block branch takes every line that is left, the empty last line too, so the literal of
  the block is \<^verbatim>\<open><pre>\<close> with two newlines and the document renders as \<^verbatim>\<open><pre>\<close> with two
  newlines; with one more newline at the end of the input the literal has three and the
  rendering has three.  This holds for every inline parser and inline renderer (no inline
  content is involved), and for the option \<open>safe\<close> off, which is the default.
\<close>

theorem unterminated_html_block_blank_line:
  "markdown (Suc fuel) toLowerCase E inlineParser renderInlines False (js ''<pre>'' @ [LF]) =
     Some (js ''<pre>'' @ [LF, LF]) \<and>
   markdown (Suc fuel) toLowerCase E inlineParser renderInlines False (js ''<pre>'' @ [LF, LF]) =
     Some (js ''<pre>'' @ [LF, LF, LF])"
proof -
  have p: "blockParse (Suc fuel) toLowerCase E (js ''<pre>'' @ [LF]) =
       Some \<lparr>subChildren = [HtmlBlock (js ''<pre>'' @ [LF, LF])], subLinkReferences = Map.empty,
             subFootnoteDefinitions = Map.empty\<rparr>"
     "blockParse (Suc fuel) toLowerCase E (js ''<pre>'' @ [LF, LF]) =
       Some \<lparr>subChildren = [HtmlBlock (js ''<pre>'' @ [LF, LF, LF])],
             subLinkReferences = Map.empty, subFootnoteDefinitions = Map.empty\<rparr>"
    by (simp_all add: pre_lines pre_step finishParagraph_def)
  show ?thesis
    unfolding markdown_def parseDocument_def p
    by (simp add: render_def dropFinalNewline_def butlast_append Let_def)
qed

end
